theory Spec2Isabelle
  imports Complex_Main "HOL-Library.Stream" "HOL-Library.Sublist"
begin

section \<open>ClassPulse: the response seeding script\<close>

text \<open>
  A shallow embedding of \<^verbatim>\<open>scripts/seed_student_responses.py\<close>. Every function of the
  script is a HOL function of the same name. What the script does beyond computing
  values is explicit:
  \<^item> the process-wide random source of Python's \<^verbatim>\<open>random\<close> module is a stream of raw
    draws that each call consumes from the front, so a statement for every stream is a
    statement for every behaviour of the random source;
  \<^item> the backend reached through \<^verbatim>\<open>httpx\<close> is a function from the request to what the
    call gives back (a response, or a transport exception);
  \<^item> printing, HTTP calls and \<^verbatim>\<open>time.sleep\<close> are events, collected in the order in
    which they happen;
  \<^item> exceptions are values of the type \<open>error\<close>, on the left of a sum;
  \<^item> the loop that redraws a name while it is taken may run forever, so it returns an
    \<open>option\<close>, \<open>None\<close> when it does not return.
  The module \<^verbatim>\<open>httpx\<close> is taken to be installed, so that the import at the top of the
  script succeeds.
\<close>

subsection \<open>Python strings\<close>

text \<open>
  A Python \<^verbatim>\<open>str\<close> is a \<open>string\<close>, one \<open>char\<close> for each character. The em dash of one
  answer body (U+2014, one character in Python) is the single character \<open>0x97\<close> here, so
  that lengths and slices count it once.
\<close>

definition rstrip :: "char \<Rightarrow> string \<Rightarrow> string" where
  "rstrip c s = rev (dropWhile (\<lambda>x. x = c) (rev s))"

definition is_space :: "char \<Rightarrow> bool" where
  "is_space c \<longleftrightarrow> of_char c \<in> {9, 10, 11, 12, 13, 28, 29, 30, 31, 32, 133, 160 :: nat}"

definition strip :: "string \<Rightarrow> string" where
  "strip s = rev (dropWhile is_space (rev (dropWhile is_space s)))"

fun join :: "string \<Rightarrow> string list \<Rightarrow> string" where
  "join sep [] = []"
| "join sep [p] = p"
| "join sep (p # q # ps) = p @ sep @ join sep (q # ps)"

text \<open>
  \<^verbatim>\<open>str.lower\<close> on one character, for the letters A to Z. The script applies it to the
  first character of an answer only, which is the capital that starts a starter phrase.
\<close>

definition lower :: "char \<Rightarrow> char" where
  "lower c =
     (case map_of (zip ''ABCDEFGHIJKLMNOPQRSTUVWXYZ'' ''abcdefghijklmnopqrstuvwxyz'') c of
        None \<Rightarrow> c
      | Some l \<Rightarrow> l)"

fun str_nat :: "nat \<Rightarrow> string" where
  "str_nat n = (if n < 10 then [''0123456789'' ! n] else str_nat (n div 10) @ [''0123456789'' ! (n mod 10)])"

definition str_int :: "int \<Rightarrow> string" where
  "str_int i = (if i < 0 then CHR ''-'' # str_nat (nat (- i)) else str_nat (nat i))"

subsection \<open>Exceptions\<close>

record response =
  status_code :: nat
  "text" :: string
  json :: "string + (string \<rightharpoonup> string)"

text \<open>
  A response carries its status, its body as text and what \<^verbatim>\<open>resp.json()\<close> gives: a
  decoding error with its message, or the decoded object. The backend's objects have
  string fields (the session identifier, the links, the token, the question).
\<close>

datatype error =
    IndexError string
  | KeyError string
  | ValueError string
  | OverflowError string
  | JSONDecodeError string
  | RequestError string
  | HTTPStatusError response

subsection \<open>The random source\<close>

type_synonym rng = "nat stream"

definition random_choice :: "'a list \<Rightarrow> rng \<Rightarrow> error + ('a \<times> rng)" where
  "random_choice seq g =
     (if seq = [] then Inl (IndexError ''Cannot choose from an empty sequence'')
      else Inr (seq ! (shd g mod length seq), stl g))"

definition random_random :: "rng \<Rightarrow> rat \<times> rng" where
  "random_random g = (of_nat (shd g mod 2 ^ 53) / 2 ^ 53, stl g)"

text \<open>
  \<^verbatim>\<open>random.random()\<close> returns a double \<open>k / 2^53\<close> with \<open>0 \<le> k < 2^53\<close>. The literal
  \<^verbatim>\<open>0.3\<close> of the source is the double nearest to three tenths.
\<close>

definition float_0_3 :: rat where
  "float_0_3 = 5404319552844595 / 18014398509481984"

subsection \<open>Fake data\<close>

definition FIRST_NAMES :: "string list" where
  "FIRST_NAMES = [
    ''Alex'', ''Jordan'', ''Taylor'', ''Morgan'', ''Casey'', ''Riley'', ''Avery'', ''Quinn'',
    ''Sam'', ''Jamie'', ''Drew'', ''Blake'', ''Cameron'', ''Skyler'', ''Reese'', ''Parker'',
    ''Emma'', ''Liam'', ''Olivia'', ''Noah'', ''Ava'', ''Ethan'', ''Sophia'', ''Mason'',
    ''Isabella'', ''William'', ''Mia'', ''James'', ''Charlotte'', ''Benjamin'']"

definition LAST_NAMES :: "string list" where
  "LAST_NAMES = [
    ''Smith'', ''Johnson'', ''Williams'', ''Brown'', ''Jones'', ''Garcia'', ''Miller'',
    ''Davis'', ''Rodriguez'', ''Martinez'', ''Wilson'', ''Anderson'', ''Taylor'',
    ''Thomas'', ''Moore'', ''Jackson'', ''Martin'', ''Lee'', ''Thompson'', ''White'']"

definition ANSWER_STARTERS :: "string list" where
  "ANSWER_STARTERS = [
    ''I think that'',
    ''In my opinion,'',
    ''From what I've learned,'',
    ''Based on my experience,'',
    ''I believe'',
    ''It seems to me that'',
    ''I would say that'',
    ''One thing I've noticed is'',
    ''Personally, I feel'',
    ''I've found that'']"

definition ANSWER_BODIES :: "string list" where
  "ANSWER_BODIES = [
    ''the key is to consider multiple perspectives and stay open-minded.'',
    ''we need to balance theory with practical application.'',
    ''collaboration and communication are essential for success.'',
    ''it helps to break things down into smaller, manageable steps.'',
    ''understanding the fundamentals makes everything else easier.'',
    ''there's often more than one right approach to a problem.'',
    ''feedback and iteration lead to better outcomes.'',
    ''context matters a lot'' @ [CHR 0x97] @ ''what works in one situation may not in another.'',
    ''we should question assumptions and look for evidence.'',
    ''connecting ideas across different areas can lead to new insights.'',
    ''practice and repetition build confidence over time.'',
    ''asking questions is just as important as having answers.'',
    ''diversity of thought strengthens the overall result.'',
    ''we need to be mindful of unintended consequences.'',
    ''simplicity often beats complexity when possible.'']"

definition ANSWER_CLOSERS :: "string list" where
  "ANSWER_CLOSERS = [
    ''That's my take on it.'',
    ''Would love to hear others' thoughts.'',
    ''Curious what the rest of the class thinks.'',
    ''Hope this adds to the discussion.'',
    '''',
    '''',
    '''']"

subsection \<open>The generators\<close>

definition random_student_name :: "rng \<Rightarrow> error + (string \<times> rng)" where
  "random_student_name g =
     (case random_choice FIRST_NAMES g of
        Inl e \<Rightarrow> Inl e
      | Inr (first, g1) \<Rightarrow>
          (case random_choice LAST_NAMES g1 of
             Inl e \<Rightarrow> Inl e
           | Inr (last', g2) \<Rightarrow> Inr (first @ '' '' @ last', g2)))"

text \<open>Lines 102 to 107 of \<^verbatim>\<open>random_answer\<close>: the three draws, joined and stripped.\<close>

definition compose_answer :: "rng \<Rightarrow> error + (string \<times> rng)" where
  "compose_answer g =
     (case random_choice ANSWER_STARTERS g of
        Inl e \<Rightarrow> Inl e
      | Inr (p1, g1) \<Rightarrow>
          (case random_choice ANSWER_BODIES g1 of
             Inl e \<Rightarrow> Inl e
           | Inr (p2, g2) \<Rightarrow>
               (case random_choice ANSWER_CLOSERS g2 of
                  Inl e \<Rightarrow> Inl e
                | Inr (p3, g3) \<Rightarrow>
                    Inr (strip (join '' '' (filter (\<lambda>p. p \<noteq> []) [p1, p2, p3])), g3))))"

definition refs :: "string list" where
  "refs = [''Regarding this, '', ''On this topic, '', ''For this question, '']"

definition random_answer :: "string \<Rightarrow> rng \<Rightarrow> error + (string \<times> rng)" where
  "random_answer question g =
     (case compose_answer g of
        Inl e \<Rightarrow> Inl e
      | Inr (answer, g3) \<Rightarrow>
          if question = [] then Inr (answer, g3)
          else
            (case random_random g3 of
               (r, g4) \<Rightarrow>
                 if r < float_0_3 then
                   (case random_choice refs g4 of
                      Inl e \<Rightarrow> Inl e
                    | Inr (ref, g5) \<Rightarrow>
                        (case answer of
                           [] \<Rightarrow> Inl (IndexError ''string index out of range'')
                         | c # cs \<Rightarrow> Inr (ref @ lower c # cs, g5)))
                 else Inr (answer, g4)))"

text \<open>
  Lines 217 and 218 of \<^verbatim>\<open>main\<close>: the name is drawn again while it is in the set of used
  names. Nothing bounds the number of draws.
\<close>

partial_function (option) redraw :: "string set \<Rightarrow> string \<Rightarrow> rng \<Rightarrow> (error + (string \<times> rng)) option" where
  "redraw used name g =
     (if name \<in> used then
        (case random_student_name g of
           Inl e \<Rightarrow> Some (Inl e)
         | Inr (name', g') \<Rightarrow> redraw used name' g')
      else Some (Inr (name, g)))"

subsection \<open>The backend, seen through httpx\<close>

text \<open>
  A request is the method, the URL, the JSON object sent (for a POST) and the timeout in
  seconds. The backend answers a request with a response, or the call raises a transport
  exception (a timeout, a refused connection) with its message. One run never issues the
  same request twice (the student names differ), so a function of the request describes
  any sequence of answers.
\<close>

datatype request =
    Get string nat
  | Post string "(string \<times> string) list" nat

type_synonym backend = "request \<Rightarrow> string + response"

datatype event =
    Print string
  | Http request
  | Sleep rat

text \<open>
  \<^verbatim>\<open>raise_for_status\<close> of httpx raises \<^verbatim>\<open>HTTPStatusError\<close> unless the status is a
  success status, 200 to 299.
\<close>

definition is_success :: "response \<Rightarrow> bool" where
  "is_success resp \<longleftrightarrow> 200 \<le> status_code resp \<and> status_code resp \<le> 299"

definition raise_for_status :: "response \<Rightarrow> error + response" where
  "raise_for_status resp = (if is_success resp then Inr resp else Inl (HTTPStatusError resp))"

definition truthy :: "string option \<Rightarrow> bool" where
  "truthy v \<longleftrightarrow> (case v of None \<Rightarrow> False | Some s \<Rightarrow> s \<noteq> [])"

definition create_session ::
    "backend \<Rightarrow> string \<Rightarrow> string \<Rightarrow> string option \<Rightarrow> (error + (string \<rightharpoonup> string)) \<times> event list" where
  "create_session b base_url question frontend_url =
     (let req = Post (base_url @ ''/api/sessions'') [(''question'', question)] 10 in
      case b req of
        Inl m \<Rightarrow> (Inl (RequestError m), [Http req])
      | Inr resp \<Rightarrow>
          (case raise_for_status resp of
             Inl e \<Rightarrow> (Inl e, [Http req])
           | Inr _ \<Rightarrow>
               (case json resp of
                  Inl m \<Rightarrow> (Inl (JSONDecodeError m), [Http req])
                | Inr data \<Rightarrow>
                    (case data ''session_id'' of
                       None \<Rightarrow> (Inl (KeyError ''session_id''), [Http req])
                     | Some sid \<Rightarrow>
                         (let out1 = [Http req, Print (''Created session: '' @ sid)] in
                          case data ''student_url'' of
                            None \<Rightarrow> (Inl (KeyError ''student_url''), out1)
                          | Some student_url \<Rightarrow>
                              (let out2 = out1 @ [Print (''  Student URL: '' @ student_url)] in
                               case
                                 (if truthy frontend_url then
                                    (case data ''admin_token'' of
                                       None \<Rightarrow> Inl (KeyError ''admin_token'')
                                     | Some tok \<Rightarrow>
                                         Inr (the frontend_url @ ''/session/'' @ sid @ ''/admin?token='' @ tok))
                                  else
                                    (case data ''admin_url'' of
                                       None \<Rightarrow> Inl (KeyError ''admin_url'')
                                     | Some u \<Rightarrow> Inr u))
                               of
                                 Inl e \<Rightarrow> (Inl e, out2)
                               | Inr admin_link \<Rightarrow>
                                   (Inr data, out2 @ [Print (''  Admin URL:   '' @ admin_link)])))))))"

definition submit_response ::
    "backend \<Rightarrow> string \<Rightarrow> string \<Rightarrow> string \<Rightarrow> string \<Rightarrow> (error + (string \<rightharpoonup> string)) \<times> event list" where
  "submit_response b base_url session_id student_name answer =
     (let req = Post (base_url @ ''/api/sessions/'' @ session_id @ ''/responses'')
                  [(''student_name'', student_name), (''answer'', answer)] 10 in
      (case b req of
         Inl m \<Rightarrow> Inl (RequestError m)
       | Inr resp \<Rightarrow>
           (case raise_for_status resp of
              Inl e \<Rightarrow> Inl e
            | Inr _ \<Rightarrow>
                (case json resp of
                   Inl m \<Rightarrow> Inl (JSONDecodeError m)
                 | Inr result \<Rightarrow> Inr result)),
       [Http req]))"

subsection \<open>The command line\<close>

text \<open>
  The parsed arguments. An option that was not given is \<open>None\<close>; \<^verbatim>\<open>--count\<close> is any
  integer and \<^verbatim>\<open>--delay\<close> any finite number (not \<^verbatim>\<open>inf\<close> or \<^verbatim>\<open>nan\<close>).
\<close>

record args =
  arg_base_url :: string
  arg_frontend_url :: "string option"
  arg_session_id :: "string option"
  arg_question :: string
  arg_count :: int
  arg_delay :: rat
  arg_no_delay :: bool

datatype outcome =
    Completed
  | Exited int
  | Crashed error

text \<open>
  The exit status of the process: 0 when \<^verbatim>\<open>main\<close> returns, the argument of
  \<^verbatim>\<open>sys.exit\<close>, and 1 when an exception is not caught.
\<close>

fun exit_code :: "outcome \<Rightarrow> int" where
  "exit_code Completed = 0"
| "exit_code (Exited n) = n"
| "exit_code (Crashed e) = 1"

subsection \<open>main: get or create the session\<close>

text \<open>
  Lines 191 to 209 of \<^verbatim>\<open>main\<close>. The result is the outcome that ends the run, or the
  session identifier, the admin link and the question; with the events so far.
\<close>

definition get_or_create_session ::
    "args \<Rightarrow> backend \<Rightarrow> string \<Rightarrow> string \<Rightarrow> (outcome + (string \<times> string option \<times> string)) \<times> event list" where
  "get_or_create_session a b base_url frontend_url =
     (if truthy (arg_session_id a) then
        (let session_id = the (arg_session_id a);
             req = Get (base_url @ ''/api/sessions/'' @ session_id) 5 in
         case b req of
           Inl m \<Rightarrow> (Inl (Crashed (RequestError m)), [Http req])
         | Inr resp \<Rightarrow>
             (case raise_for_status resp of
                Inl e \<Rightarrow>
                  (Inl (Exited 1),
                   [Http req,
                    Print (''Error: Session '' @ session_id @ '' not found ('' @ str_nat (status_code resp) @ '')'')])
              | Inr _ \<Rightarrow>
                  (case json resp of
                     Inl m \<Rightarrow> (Inl (Crashed (JSONDecodeError m)), [Http req])
                   | Inr data \<Rightarrow>
                       (let question = (case data ''question'' of None \<Rightarrow> [] | Some q \<Rightarrow> q) in
                        (Inr (session_id, None, question),
                         [Http req,
                          Print (''Using existing session: '' @ session_id),
                          Print (''  Question: '' @ take 60 question @ (if length question > 60 then ''...'' else []))])))))
      else
        (case create_session b base_url (arg_question a) (Some frontend_url) of
           (Inl e, out) \<Rightarrow> (Inl (Crashed e), out)
         | (Inr data, out) \<Rightarrow>
             (case data ''session_id'' of
                None \<Rightarrow> (Inl (Crashed (KeyError ''session_id'')), out)
              | Some session_id \<Rightarrow>
                  (let admin_token = (case data ''admin_token'' of None \<Rightarrow> [] | Some t \<Rightarrow> t);
                       admin_url = (if admin_token \<noteq> []
                                    then Some (frontend_url @ ''/session/'' @ session_id @ ''/admin?token='' @ admin_token)
                                    else None) in
                   (Inr (session_id, admin_url, arg_question a), out)))))"

subsection \<open>main: submit the fake responses\<close>

record loop_state =
  used_names :: "string set"
  gen :: rng
  events :: "event list"

text \<open>The line printed for one submission, lines 224 to 228.\<close>

fun report :: "int \<Rightarrow> int \<Rightarrow> string \<Rightarrow> string \<Rightarrow> error + (string \<rightharpoonup> string) \<Rightarrow> string" where
  "report i n name answer (Inr result) =
     ''  ['' @ str_int (i + 1) @ ''/'' @ str_int n @ ''] '' @ name @ '': '' @ take 50 answer @ ''...''"
| "report i n name answer (Inl (HTTPStatusError resp)) =
     ''  ['' @ str_int (i + 1) @ ''/'' @ str_int n @ ''] FAILED: '' @ str_nat (status_code resp) @ '' - '' @ text resp"
| "report i n name answer (Inl (KeyError k)) =
     ''  ['' @ str_int (i + 1) @ ''/'' @ str_int n @ ''] ERROR: '' @ [CHR 0x27] @ k @ [CHR 0x27]"
| "report i n name answer (Inl (IndexError m)) =
     ''  ['' @ str_int (i + 1) @ ''/'' @ str_int n @ ''] ERROR: '' @ m"
| "report i n name answer (Inl (ValueError m)) =
     ''  ['' @ str_int (i + 1) @ ''/'' @ str_int n @ ''] ERROR: '' @ m"
| "report i n name answer (Inl (OverflowError m)) =
     ''  ['' @ str_int (i + 1) @ ''/'' @ str_int n @ ''] ERROR: '' @ m"
| "report i n name answer (Inl (JSONDecodeError m)) =
     ''  ['' @ str_int (i + 1) @ ''/'' @ str_int n @ ''] ERROR: '' @ m"
| "report i n name answer (Inl (RequestError m)) =
     ''  ['' @ str_int (i + 1) @ ''/'' @ str_int n @ ''] ERROR: '' @ m"

text \<open>
  \<^verbatim>\<open>time.sleep\<close> raises \<^verbatim>\<open>ValueError\<close> for a negative length, and \<^verbatim>\<open>OverflowError\<close> for a
  length whose number of nanoseconds does not fit a signed 64-bit integer (about 9.2e9
  seconds); otherwise it pauses.
\<close>

definition time_sleep :: "rat \<Rightarrow> error + event list" where
  "time_sleep secs =
     (if secs < 0 then Inl (ValueError ''sleep length must be non-negative'')
      else if 2 ^ 63 \<le> secs * 10 ^ 9
        then Inl (OverflowError ''timestamp too large to convert to C _PyTime_t'')
      else Inr [Sleep secs])"

text \<open>Lines 230 and 231: the pause after iteration \<open>i\<close>.\<close>

definition pause :: "rat \<Rightarrow> int \<Rightarrow> int \<Rightarrow> error + event list" where
  "pause delay i n = (if delay \<noteq> 0 \<and> i < n - 1 then time_sleep delay else Inr [])"

text \<open>One iteration of the loop, lines 216 to 231, for the index \<open>i\<close>.\<close>

definition iteration ::
    "backend \<Rightarrow> string \<Rightarrow> string \<Rightarrow> string \<Rightarrow> int \<Rightarrow> rat \<Rightarrow> int \<Rightarrow> loop_state
       \<Rightarrow> (error option \<times> loop_state) option" where
  "iteration b base_url session_id question n delay i st =
     (case random_student_name (gen st) of
        Inl e \<Rightarrow> Some (Some e, st)
      | Inr (name0, g0) \<Rightarrow>
          (case redraw (used_names st) name0 g0 of
             None \<Rightarrow> None
           | Some (Inl e) \<Rightarrow> Some (Some e, st)
           | Some (Inr (name, g1)) \<Rightarrow>
               (let st1 = st\<lparr>used_names := insert name (used_names st), gen := g1\<rparr> in
                case random_answer question g1 of
                  Inl e \<Rightarrow> Some (Some e, st1)
                | Inr (answer, g2) \<Rightarrow>
                    (case submit_response b base_url session_id name answer of
                       (res, out) \<Rightarrow>
                         (let st2 = st1\<lparr>gen := g2,
                                        events := events st @ out @ [Print (report i n name answer res)]\<rparr> in
                          case pause delay i n of
                            Inl e \<Rightarrow> Some (Some e, st2)
                          | Inr out' \<Rightarrow> Some (None, st2\<lparr>events := events st2 @ out'\<rparr>))))))"

text \<open>
  The loop over \<^verbatim>\<open>range(args.count)\<close>: the iterations run in order, and an exception or
  a redraw that does not return ends the loop.
\<close>

fun submit_loop ::
    "backend \<Rightarrow> string \<Rightarrow> string \<Rightarrow> string \<Rightarrow> int \<Rightarrow> rat \<Rightarrow> int list \<Rightarrow> loop_state
       \<Rightarrow> (error option \<times> loop_state) option" where
  "submit_loop b base_url session_id question n delay [] st = Some (None, st)"
| "submit_loop b base_url session_id question n delay (i # is) st =
     (case iteration b base_url session_id question n delay i st of
        None \<Rightarrow> None
      | Some (Some e, st') \<Rightarrow> Some (Some e, st')
      | Some (None, st') \<Rightarrow> submit_loop b base_url session_id question n delay is st')"

definition py_range :: "int \<Rightarrow> int list" where
  "py_range n = map int [0..<nat n]"

subsection \<open>main\<close>

text \<open>Lines 233 to 237: what is printed after the loop.\<close>

definition summary :: "string \<Rightarrow> string \<Rightarrow> string option \<Rightarrow> event list" where
  "summary frontend_url session_id admin_url =
     [Print (CHR 0x0A # ''Done! Open the admin dashboard to see the summarized themes.''),
      (if truthy admin_url then Print (''  '' @ the admin_url)
       else Print (''  '' @ frontend_url @ ''/session/'' @ session_id @ ''/admin?token=<your-admin-token>''))]"

text \<open>Lines 186 to 188: the URLs without their trailing slashes, and the delay in effect.\<close>

definition base_url_of :: "args \<Rightarrow> string" where
  "base_url_of a = rstrip CHR ''/'' (arg_base_url a)"

definition frontend_url_of :: "args \<Rightarrow> string" where
  "frontend_url_of a =
     rstrip CHR ''/'' (if truthy (arg_frontend_url a) then the (arg_frontend_url a) else base_url_of a)"

definition delay_of :: "args \<Rightarrow> rat" where
  "delay_of a = (if arg_no_delay a then 0 else arg_delay a)"

definition main :: "args \<Rightarrow> backend \<Rightarrow> rng \<Rightarrow> (outcome \<times> event list) option" where
  "main a b g =
     (let base_url = base_url_of a;
          frontend_url = frontend_url_of a;
          delay = delay_of a
      in
        case get_or_create_session a b base_url frontend_url of
          (Inl stop, out) \<Rightarrow> Some (stop, out)
        | (Inr (session_id, admin_url, question), out) \<Rightarrow>
            (let st0 = \<lparr>used_names = {}, gen = g,
                        events = out @ [Print (CHR 0x0A # ''Submitting '' @ str_int (arg_count a)
                                                 @ '' fake student responses...'')]\<rparr> in
             case submit_loop b base_url session_id question (arg_count a) delay (py_range (arg_count a)) st0 of
               None \<Rightarrow> None
             | Some (Some e, st) \<Rightarrow> Some (Crashed e, events st)
             | Some (None, st) \<Rightarrow> Some (Completed, events st @ summary frontend_url session_id admin_url)))"

subsection \<open>Notions used by the properties\<close>

text \<open>A text starts with one of the three referential phrases.\<close>

definition has_ref_prefix :: "string \<Rightarrow> bool" where
  "has_ref_prefix s \<longleftrightarrow> (\<exists>r \<in> set refs. prefix r s)"

text \<open>
  The submission calls among the events: the POST requests whose JSON object has a
  student name. The names submitted are the display names generated, one for each
  iteration, in order.
\<close>

fun submit_request :: "event \<Rightarrow> request list" where
  "submit_request (Http (Post url body t)) =
     (if ''student_name'' \<in> fst ` set body then [Post url body t] else [])"
| "submit_request e = []"

definition submit_requests :: "event list \<Rightarrow> request list" where
  "submit_requests out = concat (map submit_request out)"

fun student_name_of :: "request \<Rightarrow> string" where
  "student_name_of (Post url body t) = (case map_of body ''student_name'' of None \<Rightarrow> [] | Some name \<Rightarrow> name)"
| "student_name_of (Get url t) = []"

definition submitted_names :: "event list \<Rightarrow> string list" where
  "submitted_names out = map student_name_of (submit_requests out)"

text \<open>The lines printed, and the events that follow the last submission call.\<close>

fun printed_line :: "event \<Rightarrow> string list" where
  "printed_line (Print l) = [l]"
| "printed_line e = []"

definition printed :: "event list \<Rightarrow> string list" where
  "printed out = concat (map printed_line out)"

definition after_last_submission :: "event list \<Rightarrow> event list" where
  "after_last_submission out = rev (takeWhile (\<lambda>e. submit_request e = []) (rev out))"

text \<open>The one request that gets or creates the session.\<close>

definition session_request :: "args \<Rightarrow> request" where
  "session_request a =
     (if truthy (arg_session_id a) then Get (base_url_of a @ ''/api/sessions/'' @ the (arg_session_id a)) 5
      else Post (base_url_of a @ ''/api/sessions'') [(''question'', arg_question a)] 10)"

text \<open>
  The events of one iteration that submits \<open>item\<close>, a name and an answer: the call and
  the line printed for its result, then the pause.
\<close>

definition attempt :: "backend \<Rightarrow> string \<Rightarrow> string \<Rightarrow> int \<Rightarrow> int \<Rightarrow> string \<times> string \<Rightarrow> event list" where
  "attempt b base_url session_id n i item =
     [Http (Post (base_url @ ''/api/sessions/'' @ session_id @ ''/responses'')
              [(''student_name'', fst item), (''answer'', snd item)] 10),
      Print (report i n (fst item) (snd item)
               (fst (submit_response b base_url session_id (fst item) (snd item))))]"

definition pause_events :: "rat \<Rightarrow> int \<Rightarrow> int \<Rightarrow> event list" where
  "pause_events delay i n = (case pause delay i n of Inl e \<Rightarrow> [] | Inr out \<Rightarrow> out)"

definition pause_error :: "rat \<Rightarrow> int \<Rightarrow> int \<Rightarrow> error option" where
  "pause_error delay i n = (case pause delay i n of Inl e \<Rightarrow> Some e | Inr out \<Rightarrow> None)"

text \<open>The events of the iterations that submit \<open>items\<close>, for the indices \<open>is\<close>.\<close>

definition blocks :: "backend \<Rightarrow> string \<Rightarrow> string \<Rightarrow> int \<Rightarrow> rat \<Rightarrow> int list \<Rightarrow> (string \<times> string) list \<Rightarrow> event list" where
  "blocks b base_url session_id n delay is items =
     concat (map (\<lambda>(i, item). attempt b base_url session_id n i item @ pause_events delay i n) (zip is items))"

text \<open>What a run printed and how it ended; a run that does not return printed nothing here.\<close>

definition run_lines :: "(outcome \<times> event list) option \<Rightarrow> string list" where
  "run_lines run = (case run of None \<Rightarrow> [] | Some (res, out) \<Rightarrow> printed out)"

definition run_outcome :: "(outcome \<times> event list) option \<Rightarrow> outcome option" where
  "run_outcome run = map_option fst run"

subsection \<open>Example runs\<close>

text \<open>The defaults of the argument parser, and some answers of a backend.\<close>

definition default_args :: args where
  "default_args =
     \<lparr>arg_base_url = ''http://localhost:8000'', arg_frontend_url = None, arg_session_id = None,
      arg_question = ''What is one key takeaway from today's class?'', arg_count = 10,
      arg_delay = 1 / 2, arg_no_delay = False\<rparr>"

definition not_found :: response where
  "not_found = \<lparr>status_code = 404, text = ''Session not found'', json = Inl ''Expecting value''\<rparr>"

definition created :: response where
  "created =
     \<lparr>status_code = 200, text = [],
      json = Inr [''session_id'' \<mapsto> ''abc123'',
                  ''student_url'' \<mapsto> ''http://localhost:8000/session/abc123'',
                  ''admin_url'' \<mapsto> ''http://localhost:8000/session/abc123/admin'',
                  ''admin_token'' \<mapsto> ''tok'']\<rparr>"

definition created_without_token :: response where
  "created_without_token =
     \<lparr>status_code = 200, text = [],
      json = Inr [''session_id'' \<mapsto> ''abc123'',
                  ''student_url'' \<mapsto> ''http://localhost:8000/session/abc123'',
                  ''admin_url'' \<mapsto> ''http://localhost:8000/session/abc123/admin'']\<rparr>"

definition created_with_empty_token :: response where
  "created_with_empty_token =
     \<lparr>status_code = 200, text = [],
      json = Inr [''session_id'' \<mapsto> ''abc123'',
                  ''student_url'' \<mapsto> ''http://localhost:8000/session/abc123'',
                  ''admin_url'' \<mapsto> ''http://localhost:8000/session/abc123/admin'',
                  ''admin_token'' \<mapsto> []]\<rparr>"

definition created_without_student_url :: response where
  "created_without_student_url =
     \<lparr>status_code = 200, text = [],
      json = Inr [''session_id'' \<mapsto> ''abc123'',
                  ''admin_url'' \<mapsto> ''http://localhost:8000/session/abc123/admin'',
                  ''admin_token'' \<mapsto> ''tok'']\<rparr>"

definition server_error :: response where
  "server_error = \<lparr>status_code = 500, text = ''Internal Server Error'', json = Inl ''Expecting value''\<rparr>"

definition accepted :: response where
  "accepted = \<lparr>status_code = 201, text = [], json = Inr Map.empty\<rparr>"

text \<open>
  A run of three submissions. The random source draws the name of the first student again
  for the second one, so that the name is redrawn twice; the random draw of the second
  answer is below 0.3.
\<close>

definition example_args :: args where
  "example_args = default_args\<lparr>arg_count := 3\<rparr>"

definition example_rng :: rng where
  "example_rng =
     [0, 0, 0, 0, 4, 4503599627370496,
      0, 0, 1, 0, 0, 0, 4, 0, 0,
      2, 1, 1, 1, 0, 4503599627370496] @- sconst 0"

text \<open>
  A backend that creates the session and accepts every submission, one that answers the
  create call with a given response, and one that answers 500 to the submission of Jordan
  Smith.
\<close>

definition accepting_backend :: backend where
  "accepting_backend r =
     (case r of
        Get url t \<Rightarrow> Inr not_found
      | Post url body t \<Rightarrow> if ''student_name'' \<in> fst ` set body then Inr accepted else Inr created)"

definition creating_backend :: "response \<Rightarrow> backend" where
  "creating_backend resp r =
     (case r of
        Get url t \<Rightarrow> Inr not_found
      | Post url body t \<Rightarrow> if ''student_name'' \<in> fst ` set body then Inr accepted else Inr resp)"

definition failing_backend :: backend where
  "failing_backend r =
     (if student_name_of r = ''Jordan Smith'' then Inr server_error else accepting_backend r)"

text \<open>
  Arguments for runs of no submission: a frontend URL with a trailing slash, an empty one,
  one that is only a slash, and none.
\<close>

definition slash_args :: args where
  "slash_args = default_args\<lparr>arg_frontend_url := Some ''http://localhost:5173/'', arg_count := 0\<rparr>"

definition empty_frontend_args :: args where
  "empty_frontend_args = default_args\<lparr>arg_frontend_url := Some [], arg_count := 0\<rparr>"

definition slash_only_args :: args where
  "slash_only_args = default_args\<lparr>arg_frontend_url := Some ''/'', arg_count := 0\<rparr>"

definition no_item_args :: args where
  "no_item_args = default_args\<lparr>arg_count := 0\<rparr>"

section \<open>Properties of the generators\<close>

subsection \<open>The pools\<close>

lemma pools_nonempty:
  "FIRST_NAMES \<noteq> []" "LAST_NAMES \<noteq> []" "ANSWER_STARTERS \<noteq> []" "ANSWER_BODIES \<noteq> []"
  "ANSWER_CLOSERS \<noteq> []" "refs \<noteq> []"
  by (simp_all add: FIRST_NAMES_def LAST_NAMES_def ANSWER_STARTERS_def ANSWER_BODIES_def
      ANSWER_CLOSERS_def refs_def)

lemma random_choice_Inr:
  "seq \<noteq> [] \<Longrightarrow> random_choice seq g = Inr (seq ! (shd g mod length seq), stl g)"
  by (simp add: random_choice_def)

lemma strip_id:
  assumes "s \<noteq> []" "\<not> is_space (hd s)" "\<not> is_space (last s)"
  shows "strip s = s"
proof -
  have "dropWhile is_space s = s"
    using assms by (cases s) simp_all
  moreover have "dropWhile is_space (rev s) = rev s"
    using assms by (cases "rev s") (simp_all add: hd_rev)
  ultimately show ?thesis by (simp add: strip_def)
qed

lemma starters_shape_all:
  "list_all (\<lambda>p. 3 \<le> length p \<and> \<not> is_space (hd p) \<and> \<not> is_space (last p)) ANSWER_STARTERS"
  by code_simp

lemma bodies_shape_all:
  "list_all (\<lambda>p. p \<noteq> [] \<and> \<not> is_space (last p)) ANSWER_BODIES"
  by code_simp

lemma closers_shape_all:
  "list_all (\<lambda>p. p = [] \<or> \<not> is_space (last p)) ANSWER_CLOSERS"
  by code_simp

lemma starters_no_ref_all:
  "list_all (\<lambda>p. list_all (\<lambda>r. 3 \<le> length r \<and> take 3 p \<noteq> take 3 r) refs) ANSWER_STARTERS"
  by code_simp

text \<open>The composed text: the starter, the body, and the closer when it is not empty.\<close>

lemma compose_answer_shape:
  "\<exists>p1 \<in> set ANSWER_STARTERS. \<exists>p2 \<in> set ANSWER_BODIES. \<exists>p3 \<in> set ANSWER_CLOSERS.
     compose_answer g =
       Inr (p1 @ '' '' @ p2 @ (if p3 = [] then [] else '' '' @ p3), stl (stl (stl g)))"
proof -
  define p1 where "p1 = ANSWER_STARTERS ! (shd g mod length ANSWER_STARTERS)"
  define p2 where "p2 = ANSWER_BODIES ! (shd (stl g) mod length ANSWER_BODIES)"
  define p3 where "p3 = ANSWER_CLOSERS ! (shd (stl (stl g)) mod length ANSWER_CLOSERS)"
  have m1: "p1 \<in> set ANSWER_STARTERS" and m2: "p2 \<in> set ANSWER_BODIES" and m3: "p3 \<in> set ANSWER_CLOSERS"
    using pools_nonempty by (simp_all add: p1_def p2_def p3_def)
  have s1: "p1 \<noteq> []" "\<not> is_space (hd p1)" "\<not> is_space (last p1)"
    using m1 starters_shape_all by (auto simp: list_all_iff)
  have s2: "p2 \<noteq> []" "\<not> is_space (last p2)"
    using m2 bodies_shape_all by (auto simp: list_all_iff)
  have s3: "p3 = [] \<or> \<not> is_space (last p3)"
    using m3 closers_shape_all by (auto simp: list_all_iff)
  let ?a = "p1 @ '' '' @ p2 @ (if p3 = [] then [] else '' '' @ p3)"
  have j: "join '' '' (filter (\<lambda>p. p \<noteq> []) [p1, p2, p3]) = ?a"
    using s1 s2 by simp
  have "?a \<noteq> []" "\<not> is_space (hd ?a)" "\<not> is_space (last ?a)"
    using s1 s2 s3 by auto
  then have "strip ?a = ?a" by (rule strip_id)
  with j have "compose_answer g = Inr (?a, stl (stl (stl g)))"
    using pools_nonempty
    by (simp add: compose_answer_def random_choice_Inr p1_def p2_def p3_def)
  with m1 m2 m3 show ?thesis by blast
qed

lemma compose_answer_plain:
  "\<exists>a. compose_answer g = Inr (a, stl (stl (stl g))) \<and> a \<noteq> [] \<and> \<not> has_ref_prefix a"
proof -
  obtain p1 p2 p3 where m: "p1 \<in> set ANSWER_STARTERS"
    and c: "compose_answer g = Inr (p1 @ '' '' @ p2 @ (if p3 = [] then [] else '' '' @ p3), stl (stl (stl g)))"
    using compose_answer_shape [of g] by blast
  let ?a = "p1 @ '' '' @ p2 @ (if p3 = [] then [] else '' '' @ p3)"
  have len: "3 \<le> length p1"
    using m starters_shape_all by (auto simp: list_all_iff)
  have "\<not> prefix r ?a" if r: "r \<in> set refs" for r
  proof
    assume "prefix r ?a"
    then obtain z where z: "?a = r @ z" by (auto simp: prefix_def)
    have lr: "3 \<le> length r" and ne: "take 3 p1 \<noteq> take 3 r"
      using m r starters_no_ref_all by (auto simp: list_all_iff)
    have "take 3 p1 = take 3 ?a" using len by simp
    also have "\<dots> = take 3 (r @ z)" by (simp only: z)
    also have "\<dots> = take 3 r" using lr by simp
    finally show False using ne by simp
  qed
  then have "\<not> has_ref_prefix ?a" by (auto simp: has_ref_prefix_def)
  moreover have "?a \<noteq> []" using len by auto
  ultimately show ?thesis using c by blast
qed

lemma float_0_3_exact:
  "(of_nat k / 2 ^ 53 < float_0_3) = ((of_nat k :: rat) / 2 ^ 53 < 3 / 10)"
proof -
  have "(of_nat k / 2 ^ 53 < float_0_3) = (k \<le> 2702159776422297)"
    unfolding float_0_3_def by (simp add: field_simps) linarith?
  moreover have "((of_nat k :: rat) / 2 ^ 53 < 3 / 10) = (k \<le> 2702159776422297)"
    by (simp add: field_simps) linarith?
  ultimately show ?thesis by simp
qed

lemma random_random_below:
  "(fst (random_random g) < float_0_3) = (fst (random_random g) < 3 / 10)"
  unfolding random_random_def fst_conv by (rule float_0_3_exact)

lemma random_answer_cases:
  "\<exists>a. compose_answer g = Inr (a, stl (stl (stl g))) \<and> a \<noteq> [] \<and> \<not> has_ref_prefix a \<and>
     random_answer question g =
       (if question = [] then Inr (a, stl (stl (stl g)))
        else if fst (random_random (stl (stl (stl g)))) < 3 / 10
          then Inr (refs ! (shd (stl (stl (stl (stl g)))) mod length refs) @ lower (hd a) # tl a,
                    stl (stl (stl (stl (stl g)))))
          else Inr (a, stl (stl (stl (stl g)))))"
proof -
  obtain a where a: "compose_answer g = Inr (a, stl (stl (stl g)))" "a \<noteq> []" "\<not> has_ref_prefix a"
    using compose_answer_plain [of g] by blast
  obtain c cs where cs: "a = c # cs" using a(2) by (cases a) auto
  have "random_answer question g =
       (if question = [] then Inr (a, stl (stl (stl g)))
        else if fst (random_random (stl (stl (stl g)))) < 3 / 10
          then Inr (refs ! (shd (stl (stl (stl (stl g)))) mod length refs) @ lower (hd a) # tl a,
                    stl (stl (stl (stl (stl g)))))
          else Inr (a, stl (stl (stl (stl g)))))"
    using pools_nonempty(6) random_random_below [of "stl (stl (stl g))"]
    by (simp add: random_answer_def a(1) cs random_choice_Inr split: prod.splits)
       (auto simp: random_random_def)
  with a show ?thesis by blast
qed

text \<open>
  Claim C4. For every question, the empty one included, and every state of the random
  source, \<^verbatim>\<open>random_answer\<close> returns (it raises nothing) and the text it returns is not
  empty.
\<close>

theorem random_answer_nonempty:
  "\<exists>answer g'. random_answer question g = Inr (answer, g') \<and> answer \<noteq> []"
proof -
  obtain a where a: "a \<noteq> []"
    and r: "random_answer question g =
       (if question = [] then Inr (a, stl (stl (stl g)))
        else if fst (random_random (stl (stl (stl g)))) < 3 / 10
          then Inr (refs ! (shd (stl (stl (stl (stl g)))) mod length refs) @ lower (hd a) # tl a,
                    stl (stl (stl (stl (stl g)))))
          else Inr (a, stl (stl (stl (stl g)))))"
    using random_answer_cases [of g question] by blast
  show ?thesis unfolding r using a by auto
qed

text \<open>
  Claim C8. \<^verbatim>\<open>random_answer\<close> returns the composed text \<open>a\<close> of the three draws, which
  never starts with a referential phrase, unless the question is not empty and the draw
  of \<^verbatim>\<open>random.random()\<close> that follows the three choices is below three tenths; then, and
  only then, it returns a referential phrase followed by \<open>a\<close> with its first character in
  lower case. For the empty question the draw is not even made, so no state of the random
  source gives a prefix.
\<close>

theorem random_answer_prefix:
  "\<exists>a g3 answer g'.
     compose_answer g = Inr (a, g3) \<and> random_answer question g = Inr (answer, g') \<and>
     (if question \<noteq> [] \<and> fst (random_random g3) < 3 / 10
      then has_ref_prefix answer \<and> (\<exists>r \<in> set refs. answer = r @ lower (hd a) # tl a)
      else answer = a \<and> \<not> has_ref_prefix answer)"
proof -
  obtain a where a: "compose_answer g = Inr (a, stl (stl (stl g)))" "\<not> has_ref_prefix a"
    and r: "random_answer question g =
       (if question = [] then Inr (a, stl (stl (stl g)))
        else if fst (random_random (stl (stl (stl g)))) < 3 / 10
          then Inr (refs ! (shd (stl (stl (stl (stl g)))) mod length refs) @ lower (hd a) # tl a,
                    stl (stl (stl (stl (stl g)))))
          else Inr (a, stl (stl (stl (stl g)))))"
    using random_answer_cases [of g question] by blast
  let ?r = "refs ! (shd (stl (stl (stl (stl g)))) mod length refs)"
  have mem: "?r \<in> set refs" using pools_nonempty(6) by simp
  then have "has_ref_prefix (?r @ lower (hd a) # tl a)"
    unfolding has_ref_prefix_def by (rule bexI [rotated]) simp
  with a mem show ?thesis unfolding r by (cases "question = []") auto
qed

section \<open>Properties of the run\<close>

subsection \<open>The loop\<close>

lemma random_student_name_Inr:
  "random_student_name g =
     Inr (FIRST_NAMES ! (shd g mod length FIRST_NAMES) @ '' '' @
          LAST_NAMES ! (shd (stl g) mod length LAST_NAMES), stl (stl g))"
  using pools_nonempty(1,2) by (simp add: random_student_name_def random_choice_Inr)

lemma redraw_unused:
  assumes "redraw used name g = Some r"
  shows "\<exists>name' g'. r = Inr (name', g') \<and> name' \<notin> used"
  using assms
  by (rule redraw.raw_induct
        [where P = "\<lambda>used name g r. \<exists>name' g'. r = Inr (name', g') \<and> name' \<notin> used", rotated])
     (auto simp: random_student_name_Inr split: if_splits)

lemma random_answer_Inr: "\<exists>answer g'. random_answer question g = Inr (answer, g')"
  using random_answer_cases [of g question] by (auto split: if_splits)

lemma iteration_result:
  assumes "iteration b base_url session_id question n delay i st = Some (res, st')"
  shows "\<exists>item. fst item \<notin> used_names st \<and>
           used_names st' = insert (fst item) (used_names st) \<and>
           events st' = events st @ attempt b base_url session_id n i item @ pause_events delay i n \<and>
           res = pause_error delay i n"
proof -
  obtain name0 g0 where n0: "random_student_name (gen st) = Inr (name0, g0)"
    by (simp add: random_student_name_Inr)
  from assms n0 obtain r where r: "redraw (used_names st) name0 g0 = Some r"
    by (auto simp: iteration_def split: option.splits)
  then obtain name g1 where r': "r = Inr (name, g1)" and unused: "name \<notin> used_names st"
    using redraw_unused by blast
  obtain answer g2 where ans: "random_answer question g1 = Inr (answer, g2)"
    using random_answer_Inr by blast
  from assms show ?thesis
    by (intro exI [of _ "(name, answer)"])
       (auto simp: iteration_def n0 r r' ans unused Let_def attempt_def pause_events_def
          pause_error_def submit_response_def split: sum.splits)
qed

lemma iteration_skeleton:
  assumes "used_names st = used_names su" "gen st = gen su"
  shows "rel_option (\<lambda>(r, s) (r', s'). r = r' \<and> used_names s = used_names s' \<and> gen s = gen s')
           (iteration b base_url session_id question n delay i st)
           (iteration b' base_url' session_id' question n delay i su)"
proof -
  obtain name0 g0 where n0: "random_student_name (gen st) = Inr (name0, g0)"
    by (simp add: random_student_name_Inr)
  show ?thesis
  proof (cases "redraw (used_names st) name0 g0")
    case None
    then show ?thesis using assms n0 by (simp add: iteration_def)
  next
    case (Some r)
    then obtain name g1 where r': "r = Inr (name, g1)"
      using redraw_unused by blast
    obtain answer g2 where ans: "random_answer question g1 = Inr (answer, g2)"
      using random_answer_Inr by blast
    show ?thesis using assms n0 Some r' ans
      by (auto simp: iteration_def Let_def split: sum.splits prod.splits)
  qed
qed

lemma submit_loop_skeleton:
  assumes "used_names st = used_names su" "gen st = gen su"
  shows "rel_option (\<lambda>(r, s) (r', s'). r = r' \<and> used_names s = used_names s' \<and> gen s = gen s')
           (submit_loop b base_url session_id question n delay is st)
           (submit_loop b' base_url' session_id' question n delay is su)"
  using assms
proof (induction "is" arbitrary: st su)
  case Nil
  then show ?case by simp
next
  case (Cons i "is")
  have rel: "rel_option (\<lambda>(r, s) (r', s'). r = r' \<and> used_names s = used_names s' \<and> gen s = gen s')
           (iteration b base_url session_id question n delay i st)
           (iteration b' base_url' session_id' question n delay i su)"
    using Cons.prems by (rule iteration_skeleton)
  show ?case
  proof (cases "iteration b base_url session_id question n delay i st")
    case None
    with rel show ?thesis by (cases "iteration b' base_url' session_id' question n delay i su") auto
  next
    case (Some p)
    obtain r st1 where p: "p = (r, st1)" by (cases p)
    from rel Some p obtain su1 where
      su1: "iteration b' base_url' session_id' question n delay i su = Some (r, su1)"
        "used_names st1 = used_names su1" "gen st1 = gen su1"
      by (cases "iteration b' base_url' session_id' question n delay i su") auto
    show ?thesis
    proof (cases r)
      case None
      then show ?thesis using Some p su1 Cons.IH [OF su1(2,3)] by simp
    next
      case (Some e)
      then show ?thesis using \<open>iteration b base_url session_id question n delay i st = Some p\<close> p su1
        by simp
    qed
  qed
qed

lemma submit_loop_trace:
  assumes "submit_loop b base_url session_id question n delay is st = Some (res, st')"
  shows "\<exists>items. length items \<le> length is \<and> (res = None \<longrightarrow> length items = length is) \<and>
           (res \<noteq> None \<longrightarrow> items \<noteq> [] \<and> res = pause_error delay (is ! (length items - 1)) n) \<and>
           distinct (map fst items) \<and> set (map fst items) \<inter> used_names st = {} \<and>
           used_names st' = used_names st \<union> set (map fst items) \<and>
           events st' = events st @ blocks b base_url session_id n delay is items"
  using assms
proof (induction "is" arbitrary: st)
  case Nil
  then show ?case by (auto simp: blocks_def)
next
  case (Cons i "is")
  from Cons.prems obtain r st1 where
    it: "iteration b base_url session_id question n delay i st = Some (r, st1)"
    by (auto split: option.splits)
  then obtain item where item: "fst item \<notin> used_names st"
      "used_names st1 = insert (fst item) (used_names st)"
      "events st1 = events st @ attempt b base_url session_id n i item @ pause_events delay i n"
      "r = pause_error delay i n"
    using iteration_result by blast
  show ?case
  proof (cases r)
    case (Some e)
    with Cons.prems it have "res = Some e" "st' = st1" by auto
    with item Some show ?thesis
      by (intro exI [of _ "[item]"]) (auto simp: blocks_def)
  next
    case None
    with Cons.prems it have "submit_loop b base_url session_id question n delay is st1 = Some (res, st')"
      by simp
    from Cons.IH [OF this] obtain items where items:
      "length items \<le> length is" "res = None \<longrightarrow> length items = length is"
      "res \<noteq> None \<longrightarrow> items \<noteq> [] \<and> res = pause_error delay (is ! (length items - 1)) n"
      "distinct (map fst items)" "set (map fst items) \<inter> used_names st1 = {}"
      "used_names st' = used_names st1 \<union> set (map fst items)"
      "events st' = events st1 @ blocks b base_url session_id n delay is items"
      by blast
    have nth: "items \<noteq> [] \<Longrightarrow> (i # is) ! (length (item # items) - 1) = is ! (length items - 1)"
      by (cases items) auto
    show ?thesis
      using items item nth
      by (intro exI [of _ "item # items"]) (auto simp: blocks_def)
  qed
qed

lemma resolution_events:
  "set (snd (get_or_create_session a b (base_url_of a) F)) \<subseteq> insert (Http (session_request a)) (range Print)"
  by (auto simp: get_or_create_session_def create_session_def session_request_def Let_def
      split: sum.splits option.splits if_splits prod.splits)

lemma submit_requests_append [simp]:
  "submit_requests (xs @ ys) = submit_requests xs @ submit_requests ys"
  by (simp add: submit_requests_def)

lemma submit_requests_simps [simp]:
  "submit_requests [] = []"
  "submit_requests (e # out) = submit_request e @ submit_requests out"
  by (simp_all add: submit_requests_def)

lemma submit_requests_none:
  "(\<And>e. e \<in> set out \<Longrightarrow> submit_request e = []) \<Longrightarrow> submit_requests out = []"
  by (induction out) (auto simp: submit_requests_def)

lemma session_request_no_submit: "submit_request (Http (session_request a)) = []"
  by (simp add: session_request_def)

lemma resolution_no_submissions:
  "submit_requests (snd (get_or_create_session a b (base_url_of a) F)) = []"
proof (rule submit_requests_none)
  fix e assume "e \<in> set (snd (get_or_create_session a b (base_url_of a) F))"
  then have "e = Http (session_request a) \<or> e \<in> range Print"
    using resolution_events [of a b F] by blast
  then show "submit_request e = []"
    using session_request_no_submit by auto
qed

lemma resolution_no_sleep:
  "Sleep d \<notin> set (snd (get_or_create_session a b (base_url_of a) F))"
  using resolution_events [of a b F] by auto

lemma summary_no_submissions [simp]: "submit_requests (summary F sid admin) = []"
  by (simp add: summary_def submit_requests_def)

lemma submit_requests_blocks:
  "length items \<le> length is \<Longrightarrow>
   submit_requests (blocks b base_url session_id n delay is items) =
     map (\<lambda>item. Post (base_url @ ''/api/sessions/'' @ session_id @ ''/responses'')
                    [(''student_name'', fst item), (''answer'', snd item)] 10) items"
proof (induction items arbitrary: "is")
  case Nil
  then show ?case by (simp add: blocks_def submit_requests_def)
next
  case (Cons item items)
  then obtain i is' where "is": "is = i # is'" by (cases "is") auto
  have "submit_requests (pause_events delay i n) = []"
    by (simp add: pause_events_def pause_def time_sleep_def submit_requests_def)
  moreover have "submit_requests (attempt b base_url session_id n i item) =
      [Post (base_url @ ''/api/sessions/'' @ session_id @ ''/responses'')
                    [(''student_name'', fst item), (''answer'', snd item)] 10]"
    by (simp add: attempt_def submit_requests_def)
  moreover have "blocks b base_url session_id n delay (i # is') (item # items) =
      attempt b base_url session_id n i item @ pause_events delay i n @
      blocks b base_url session_id n delay is' items"
    by (simp add: blocks_def)
  ultimately show ?case using Cons "is" by simp
qed

lemma resolution_stop:
  assumes "get_or_create_session a b base_url F = (Inl stop, out)"
  shows "stop \<noteq> Completed"
proof (cases "truthy (arg_session_id a)")
  case True
  with assms show ?thesis
    by (simp add: get_or_create_session_def Let_def split: sum.splits) auto
next
  case False
  with assms show ?thesis
    by (simp add: get_or_create_session_def Let_def split: sum.splits prod.splits option.splits) auto
qed

lemma main_structure:
  assumes "main a b g = Some (res, out)"
  shows "res \<noteq> Completed \<and>
         get_or_create_session a b (base_url_of a) (frontend_url_of a) = (Inl res, out) \<or>
    (\<exists>sid admin q out0 items.
       get_or_create_session a b (base_url_of a) (frontend_url_of a) = (Inr (sid, admin, q), out0) \<and>
       length items \<le> nat (arg_count a) \<and>
       (res = Completed \<longrightarrow> length items = nat (arg_count a)) \<and>
       (res \<noteq> Completed \<longrightarrow> items \<noteq> [] \<and>
          (\<exists>e. res = Crashed e \<and> Some e = pause_error (delay_of a) (int (length items - 1)) (arg_count a))) \<and>
       distinct (map fst items) \<and>
       out = out0 @ [Print (CHR 0x0A # ''Submitting '' @ str_int (arg_count a) @ '' fake student responses...'')]
               @ blocks b (base_url_of a) sid (arg_count a) (delay_of a) (py_range (arg_count a)) items
               @ (if res = Completed then summary (frontend_url_of a) sid admin else []))"
proof (cases "get_or_create_session a b (base_url_of a) (frontend_url_of a)")
  case (Pair r out0)
  show ?thesis
  proof (cases r)
    case (Inl stop)
    with Pair assms resolution_stop [of a b "base_url_of a" "frontend_url_of a" stop out0]
    show ?thesis by (simp add: main_def)
  next
    case (Inr t)
    obtain sid admin q where t: "t = (sid, admin, q)" by (cases t)
    define st0 where "st0 = \<lparr>used_names = {}, gen = g,
        events = out0 @ [Print (CHR 0x0A # ''Submitting '' @ str_int (arg_count a) @ '' fake student responses...'')]\<rparr>"
    from assms Pair Inr t obtain r' st' where
      loop: "submit_loop b (base_url_of a) sid q (arg_count a) (delay_of a) (py_range (arg_count a)) st0 = Some (r', st')"
      and res: "res = (case r' of None \<Rightarrow> Completed | Some e \<Rightarrow> Crashed e)"
      and out: "out = (case r' of None \<Rightarrow> events st' @ summary (frontend_url_of a) sid admin | Some e \<Rightarrow> events st')"
      by (auto simp: main_def Let_def st0_def split: option.splits)
    from submit_loop_trace [OF loop] obtain items where items:
      "length items \<le> length (py_range (arg_count a))"
      "r' = None \<longrightarrow> length items = length (py_range (arg_count a))"
      "r' \<noteq> None \<longrightarrow> items \<noteq> [] \<and> r' = pause_error (delay_of a) (py_range (arg_count a) ! (length items - 1)) (arg_count a)"
      "distinct (map fst items)"
      "events st' = events st0 @ blocks b (base_url_of a) sid (arg_count a) (delay_of a) (py_range (arg_count a)) items"
      by blast
    have len: "length (py_range (arg_count a)) = nat (arg_count a)"
      by (simp add: py_range_def)
    have nth: "items \<noteq> [] \<Longrightarrow> py_range (arg_count a) ! (length items - 1) = int (length items - 1)"
      using items(1) len by (cases items) (auto simp: py_range_def)
    have "get_or_create_session a b (base_url_of a) (frontend_url_of a) = (Inr (sid, admin, q), out0)"
      using Pair Inr t by simp
    moreover have "length items \<le> nat (arg_count a)" using items(1) len by simp
    moreover have "res = Completed \<longrightarrow> length items = nat (arg_count a)"
      using items(2) len res by (auto split: option.splits)
    moreover have "res \<noteq> Completed \<longrightarrow> items \<noteq> [] \<and>
          (\<exists>e. res = Crashed e \<and> Some e = pause_error (delay_of a) (int (length items - 1)) (arg_count a))"
      using items(3) nth res by (auto split: option.splits)
    moreover have "out = out0 @ [Print (CHR 0x0A # ''Submitting '' @ str_int (arg_count a) @ '' fake student responses...'')]
               @ blocks b (base_url_of a) sid (arg_count a) (delay_of a) (py_range (arg_count a)) items
               @ (if res = Completed then summary (frontend_url_of a) sid admin else [])"
      using out res items(5) by (auto simp: st0_def split: option.splits)
    ultimately show ?thesis using items(4) by blast
  qed
qed

lemma student_names_of_items:
  "map student_name_of (map (\<lambda>item. Post u [(''student_name'', fst item), (''answer'', snd item)] t) items)
     = map fst items"
  by (induction items) auto

text \<open>
  Claim C1. In every run that returns, whatever its outcome, the display names submitted,
  one for each iteration in the order of the iterations, are pairwise distinct. This holds
  for every count, so for every count of at most 600; the example after the theorem is a
  run in which a name is drawn again and redrawn.
\<close>

theorem generated_names_distinct:
  assumes "arg_count a \<le> 600" and "main a b g = Some (res, out)"
  shows "distinct (submitted_names out)"
  using main_structure [OF assms(2)]
proof
  assume "res \<noteq> Completed \<and>
    get_or_create_session a b (base_url_of a) (frontend_url_of a) = (Inl res, out)"
  then have "submit_requests out = []"
    using resolution_no_submissions [of a b "frontend_url_of a"] by simp
  then show ?thesis by (simp add: submitted_names_def)
next
  assume "\<exists>sid admin q out0 items.
       get_or_create_session a b (base_url_of a) (frontend_url_of a) = (Inr (sid, admin, q), out0) \<and>
       length items \<le> nat (arg_count a) \<and>
       (res = Completed \<longrightarrow> length items = nat (arg_count a)) \<and>
       (res \<noteq> Completed \<longrightarrow> items \<noteq> [] \<and>
          (\<exists>e. res = Crashed e \<and> Some e = pause_error (delay_of a) (int (length items - 1)) (arg_count a))) \<and>
       distinct (map fst items) \<and>
       out = out0 @ [Print (CHR 0x0A # ''Submitting '' @ str_int (arg_count a) @ '' fake student responses...'')]
               @ blocks b (base_url_of a) sid (arg_count a) (delay_of a) (py_range (arg_count a)) items
               @ (if res = Completed then summary (frontend_url_of a) sid admin else [])"
  then obtain sid admin q out0 items where
    r: "get_or_create_session a b (base_url_of a) (frontend_url_of a) = (Inr (sid, admin, q), out0)"
    and len: "length items \<le> nat (arg_count a)" and d: "distinct (map fst items)"
    and out: "out = out0 @ [Print (CHR 0x0A # ''Submitting '' @ str_int (arg_count a) @ '' fake student responses...'')]
               @ blocks b (base_url_of a) sid (arg_count a) (delay_of a) (py_range (arg_count a)) items
               @ (if res = Completed then summary (frontend_url_of a) sid admin else [])"
    by blast
  have "submit_requests out0 = []"
    using resolution_no_submissions [of a b "frontend_url_of a"] r by simp
  moreover have "length items \<le> length (py_range (arg_count a))"
    using len by (simp add: py_range_def)
  ultimately have "submit_requests out =
      map (\<lambda>item. Post (base_url_of a @ ''/api/sessions/'' @ sid @ ''/responses'')
                    [(''student_name'', fst item), (''answer'', snd item)] 10) items"
    unfolding out by (simp add: submit_requests_blocks)
  then have "submitted_names out = map fst items"
    unfolding submitted_names_def by (simp only: student_names_of_items)
  with d show ?thesis by simp
qed

subsection \<open>Session resolution\<close>

lemma rstrip_localhost: "rstrip CHR ''/'' ''http://localhost:8000'' = ''http://localhost:8000''"
  by (simp add: rstrip_def)

text \<open>
  Claim C2. On the reuse path, when the backend answers the lookup of the session with a
  status that is not a success, the run ends with exit status 1 after the lookup and one
  error line: no submission call is made.
\<close>

theorem lookup_failure_stops_run:
  assumes reuse: "arg_session_id a = Some session_id" "session_id \<noteq> []"
    and resp: "b (session_request a) = Inr resp" "\<not> is_success resp"
  shows "\<exists>out. main a b g = Some (Exited 1, out) \<and> submit_requests out = [] \<and>
           exit_code (Exited 1) \<noteq> 0 \<and>
           out = [Http (Get (base_url_of a @ ''/api/sessions/'' @ session_id) 5),
                  Print (''Error: Session '' @ session_id @ '' not found ('' @ str_nat (status_code resp) @ '')'')]"
  using assms
  by (simp add: main_def get_or_create_session_def truthy_def raise_for_status_def Let_def
      submit_requests_def session_request_def)

theorem lookup_failure_stops_run_witness:
  "\<exists>out. main (default_args\<lparr>arg_session_id := Some ''abc12345''\<rparr>) (\<lambda>r. Inr not_found) (sconst 0)
            = Some (Exited 1, out) \<and> submit_requests out = [] \<and> exit_code (Exited 1) \<noteq> 0 \<and>
          out = [Http (Get ''http://localhost:8000/api/sessions/abc12345'' 5),
                 Print ''Error: Session abc12345 not found (404)'']"
  using lookup_failure_stops_run [of "default_args\<lparr>arg_session_id := Some ''abc12345''\<rparr>" "''abc12345''"
      "\<lambda>r. Inr not_found" not_found "sconst 0"]
  by (simp add: default_args_def base_url_of_def rstrip_localhost not_found_def is_success_def)

text \<open>
  Claim C6. With the default arguments and a create response that has no
  \<^verbatim>\<open>admin_token\<close> field, \<^verbatim>\<open>create_session\<close> raises \<^verbatim>\<open>KeyError\<close> when it formats the admin
  link (line 127): the run ends there, before any submission, although line 207 of
  \<^verbatim>\<open>main\<close> reads the same field with a default.
\<close>

theorem missing_admin_token_crashes:
  "main default_args (\<lambda>r. Inr created_without_token) g =
     Some (Crashed (KeyError ''admin_token''),
           [Http (Post ''http://localhost:8000/api/sessions''
                    [(''question'', ''What is one key takeaway from today's class?'')] 10),
            Print ''Created session: abc123'',
            Print ''  Student URL: http://localhost:8000/session/abc123''])"
  by (simp add: main_def get_or_create_session_def create_session_def truthy_def raise_for_status_def
      Let_def default_args_def base_url_of_def frontend_url_of_def rstrip_localhost
      created_without_token_def is_success_def)

subsection \<open>Failed submissions\<close>

lemma resolution_same:
  assumes "b (session_request a) = b0 (session_request a)"
  shows "get_or_create_session a b (base_url_of a) F = get_or_create_session a b0 (base_url_of a) F"
  using assms
  by (cases "truthy (arg_session_id a)")
     (simp_all add: get_or_create_session_def create_session_def session_request_def Let_def)

lemma main_outcome_independent:
  assumes "b (session_request a) = b0 (session_request a)"
  shows "rel_option (\<lambda>(r, out) (r', out'). r = r') (main a b g) (main a b0 g)"
proof (cases "get_or_create_session a b0 (base_url_of a) (frontend_url_of a)")
  case (Pair r out0)
  have same: "get_or_create_session a b (base_url_of a) (frontend_url_of a) = (r, out0)"
    using resolution_same [of b a b0 "frontend_url_of a"] assms Pair by simp
  show ?thesis
  proof (cases r)
    case (Inl stop)
    then show ?thesis using Pair same by (simp add: main_def)
  next
    case (Inr t)
    obtain sid admin q where t: "t = (sid, admin, q)" by (cases t)
    define st0 where "st0 = \<lparr>used_names = {}, gen = g,
        events = out0 @ [Print (CHR 0x0A # ''Submitting '' @ str_int (arg_count a) @ '' fake student responses...'')]\<rparr>"
    have "rel_option (\<lambda>(r, s) (r', s'). r = r' \<and> used_names s = used_names s' \<and> gen s = gen s')
           (submit_loop b (base_url_of a) sid q (arg_count a) (delay_of a) (py_range (arg_count a)) st0)
           (submit_loop b0 (base_url_of a) sid q (arg_count a) (delay_of a) (py_range (arg_count a)) st0)"
      by (rule submit_loop_skeleton) simp_all
    then show ?thesis
      using Pair same Inr t
      by (cases "submit_loop b (base_url_of a) sid q (arg_count a) (delay_of a) (py_range (arg_count a)) st0";
          cases "submit_loop b0 (base_url_of a) sid q (arg_count a) (delay_of a) (py_range (arg_count a)) st0")
         (auto simp: main_def Let_def st0_def split: option.splits)
  qed
qed

lemma main_completes_as_reference:
  assumes "main a b0 g = Some (Completed, out0)" "b (session_request a) = b0 (session_request a)"
  shows "\<exists>out. main a b g = Some (Completed, out)"
  using main_outcome_independent [of b a b0 g] assms
  by (cases "main a b g") auto

lemma set_concat_map_mem: "x \<in> set xs \<Longrightarrow> set (f x) \<subseteq> set (concat (map f xs))"
  by auto

lemma attempt_in_blocks:
  assumes "k < length items" "length items \<le> length is"
  shows "set (attempt b base_url session_id n (is ! k) (items ! k))
           \<subseteq> set (blocks b base_url session_id n delay is items)"
proof -
  have "k < length (zip is items)" using assms by simp
  then have "zip is items ! k \<in> set (zip is items)" by (rule nth_mem)
  moreover have "zip is items ! k = (is ! k, items ! k)" using assms by simp
  ultimately have "(is ! k, items ! k) \<in> set (zip is items)" by simp
  from set_concat_map_mem [OF this,
      of "\<lambda>(i, item). attempt b base_url session_id n i item @ pause_events delay i n"]
  show ?thesis
    unfolding blocks_def by simp
qed

lemma report_exception:
  assumes "b (Post (base_url @ ''/api/sessions/'' @ session_id @ ''/responses'')
              [(''student_name'', name), (''answer'', answer)] 10) = Inl m"
  shows "report i n name answer (fst (submit_response b base_url session_id name answer)) =
     ''  ['' @ str_int (i + 1) @ ''/'' @ str_int n @ ''] ERROR: '' @ m"
proof -
  have "fst (submit_response b base_url session_id name answer) = Inl (RequestError m)"
    unfolding submit_response_def Let_def fst_conv assms by simp
  then show ?thesis by (simp only: report.simps)
qed

lemma report_http_failure:
  assumes "b (Post (base_url @ ''/api/sessions/'' @ session_id @ ''/responses'')
              [(''student_name'', name), (''answer'', answer)] 10) = Inr resp"
    and "\<not> is_success resp"
  shows "report i n name answer (fst (submit_response b base_url session_id name answer)) =
     ''  ['' @ str_int (i + 1) @ ''/'' @ str_int n @ ''] FAILED: '' @
       str_nat (status_code resp) @ '' - '' @ text resp"
proof -
  have "fst (submit_response b base_url session_id name answer) = Inl (HTTPStatusError resp)"
    unfolding submit_response_def Let_def fst_conv assms(1) using assms(2)
    by (simp add: raise_for_status_def)
  then show ?thesis by (simp only: report.simps)
qed

lemma report_decode_failure:
  assumes "b (Post (base_url @ ''/api/sessions/'' @ session_id @ ''/responses'')
              [(''student_name'', name), (''answer'', answer)] 10) = Inr resp"
    and "is_success resp" "json resp = Inl m"
  shows "report i n name answer (fst (submit_response b base_url session_id name answer)) =
     ''  ['' @ str_int (i + 1) @ ''/'' @ str_int n @ ''] ERROR: '' @ m"
proof -
  have "fst (submit_response b base_url session_id name answer) = Inl (JSONDecodeError m)"
    unfolding submit_response_def Let_def fst_conv assms(1) using assms(2,3)
    by (simp add: raise_for_status_def)
  then show ?thesis by (simp only: report.simps)
qed

text \<open>
  Claim C3. Suppose the run completes against some backend \<open>b0\<close>, for instance one that
  accepts every submission. Then it completes against every backend \<open>b\<close> that answers the
  session request as \<open>b0\<close> does, whatever \<open>b\<close> answers to the submissions: all
  \<^verbatim>\<open>count\<close> submission calls are made, and for each of them that fails, by an HTTP
  error status, a transport exception or an undecodable body, the failure line of its
  iteration is printed.
\<close>

theorem failed_submission_does_not_stop_loop:
  assumes ref: "main a b0 g = Some (Completed, out0)"
    and same: "b (session_request a) = b0 (session_request a)"
  shows "\<exists>out. main a b g = Some (Completed, out) \<and>
           length (submit_requests out) = nat (arg_count a) \<and>
           (\<forall>k < nat (arg_count a).
              (\<forall>resp. b (submit_requests out ! k) = Inr resp \<and> \<not> is_success resp \<longrightarrow>
                 Print (''  ['' @ str_int (int k + 1) @ ''/'' @ str_int (arg_count a) @ ''] FAILED: '' @
                        str_nat (status_code resp) @ '' - '' @ text resp) \<in> set out) \<and>
              (\<forall>m. b (submit_requests out ! k) = Inl m \<longrightarrow>
                 Print (''  ['' @ str_int (int k + 1) @ ''/'' @ str_int (arg_count a) @ ''] ERROR: '' @ m)
                   \<in> set out) \<and>
              (\<forall>resp m. b (submit_requests out ! k) = Inr resp \<and> is_success resp \<and> json resp = Inl m \<longrightarrow>
                 Print (''  ['' @ str_int (int k + 1) @ ''/'' @ str_int (arg_count a) @ ''] ERROR: '' @ m)
                   \<in> set out))"
proof -
  obtain out where run: "main a b g = Some (Completed, out)"
    using main_completes_as_reference [of a b0 g out0 b] ref same by blast
  have "\<exists>sid admin q out1 items.
      get_or_create_session a b (base_url_of a) (frontend_url_of a) = (Inr (sid, admin, q), out1) \<and>
      length items = nat (arg_count a) \<and>
      out = out1 @ [Print (CHR 0x0A # ''Submitting '' @ str_int (arg_count a) @ '' fake student responses...'')]
               @ blocks b (base_url_of a) sid (arg_count a) (delay_of a) (py_range (arg_count a)) items
               @ summary (frontend_url_of a) sid admin"
    using main_structure [OF run] by simp blast
  then obtain sid admin q out1 items where
    r: "get_or_create_session a b (base_url_of a) (frontend_url_of a) = (Inr (sid, admin, q), out1)"
    and len: "length items = nat (arg_count a)"
    and out: "out = out1 @ [Print (CHR 0x0A # ''Submitting '' @ str_int (arg_count a) @ '' fake student responses...'')]
               @ blocks b (base_url_of a) sid (arg_count a) (delay_of a) (py_range (arg_count a)) items
               @ summary (frontend_url_of a) sid admin"
    by blast
  let ?url = "base_url_of a @ ''/api/sessions/'' @ sid @ ''/responses''"
  have lr: "length items \<le> length (py_range (arg_count a))"
    using len by (simp add: py_range_def)
  have "submit_requests out1 = []"
    using resolution_no_submissions [of a b "frontend_url_of a"] r by simp
  then have reqs: "submit_requests out =
      map (\<lambda>item. Post ?url [(''student_name'', fst item), (''answer'', snd item)] 10) items"
    unfolding out using lr by (simp add: submit_requests_blocks)
  have lines: "Print (report (int k) (arg_count a) (fst (items ! k)) (snd (items ! k))
                 (fst (submit_response b (base_url_of a) sid (fst (items ! k)) (snd (items ! k))))) \<in> set out"
    if k: "k < nat (arg_count a)" for k
  proof -
    have "set (attempt b (base_url_of a) sid (arg_count a) (py_range (arg_count a) ! k) (items ! k))
        \<subseteq> set (blocks b (base_url_of a) sid (arg_count a) (delay_of a) (py_range (arg_count a)) items)"
      using k len lr by (intro attempt_in_blocks) simp_all
    moreover have "py_range (arg_count a) ! k = int k"
      using k by (simp add: py_range_def)
    moreover have "set (blocks b (base_url_of a) sid (arg_count a) (delay_of a) (py_range (arg_count a)) items)
        \<subseteq> set out"
      by (simp only: out set_append) blast
    ultimately have "set (attempt b (base_url_of a) sid (arg_count a) (int k) (items ! k)) \<subseteq> set out"
      by (simp only:)
    then show ?thesis by (simp add: attempt_def)
  qed
  have "(\<forall>resp. b (submit_requests out ! k) = Inr resp \<and> \<not> is_success resp \<longrightarrow>
                 Print (''  ['' @ str_int (int k + 1) @ ''/'' @ str_int (arg_count a) @ ''] FAILED: '' @
                        str_nat (status_code resp) @ '' - '' @ text resp) \<in> set out) \<and>
              (\<forall>m. b (submit_requests out ! k) = Inl m \<longrightarrow>
                 Print (''  ['' @ str_int (int k + 1) @ ''/'' @ str_int (arg_count a) @ ''] ERROR: '' @ m)
                   \<in> set out) \<and>
              (\<forall>resp m. b (submit_requests out ! k) = Inr resp \<and> is_success resp \<and> json resp = Inl m \<longrightarrow>
                 Print (''  ['' @ str_int (int k + 1) @ ''/'' @ str_int (arg_count a) @ ''] ERROR: '' @ m)
                   \<in> set out)"
    if k: "k < nat (arg_count a)" for k
  proof -
    have req: "submit_requests out ! k =
        Post ?url [(''student_name'', fst (items ! k)), (''answer'', snd (items ! k))] 10"
      using k len by (simp add: reqs)
    have "Print (''  ['' @ str_int (int k + 1) @ ''/'' @ str_int (arg_count a) @ ''] FAILED: '' @
                        str_nat (status_code resp) @ '' - '' @ text resp) \<in> set out"
      if f: "b (submit_requests out ! k) = Inr resp" "\<not> is_success resp" for resp
    proof -
      have "b (Post ?url [(''student_name'', fst (items ! k)), (''answer'', snd (items ! k))] 10) = Inr resp"
        using f(1) by (simp only: req)
      from report_http_failure [where b = b and i = "int k" and n = "arg_count a", OF this f(2)]
      show ?thesis using lines [OF k] by (simp only:)
    qed
    moreover have "Print (''  ['' @ str_int (int k + 1) @ ''/'' @ str_int (arg_count a) @ ''] ERROR: '' @ m)
                   \<in> set out"
      if f: "b (submit_requests out ! k) = Inl m" for m
    proof -
      have "b (Post ?url [(''student_name'', fst (items ! k)), (''answer'', snd (items ! k))] 10) = Inl m"
        using f by (simp only: req)
      from report_exception [where b = b and i = "int k" and n = "arg_count a", OF this]
      show ?thesis using lines [OF k] by (simp only:)
    qed
    moreover have "Print (''  ['' @ str_int (int k + 1) @ ''/'' @ str_int (arg_count a) @ ''] ERROR: '' @ m)
                   \<in> set out"
      if f: "b (submit_requests out ! k) = Inr resp" "is_success resp" "json resp = Inl m" for resp m
    proof -
      have "b (Post ?url [(''student_name'', fst (items ! k)), (''answer'', snd (items ! k))] 10) = Inr resp"
        using f(1) by (simp only: req)
      from report_decode_failure [where b = b and i = "int k" and n = "arg_count a", OF this f(2,3)]
      show ?thesis using lines [OF k] by (simp only:)
    qed
    ultimately show ?thesis by blast
  qed
  moreover have "length (submit_requests out) = nat (arg_count a)"
    using reqs len by simp
  ultimately show ?thesis using run by blast
qed

subsection \<open>Example runs, evaluated\<close>

lemmas run_simps = main_def get_or_create_session_def create_session_def truthy_def rstrip_def
  raise_for_status_def is_success_def py_range_def iteration_def random_student_name_def
  random_choice_def FIRST_NAMES_def LAST_NAMES_def redraw.simps Let_def upt_rec str_int_def
  random_answer_def compose_answer_def ANSWER_STARTERS_def ANSWER_BODIES_def ANSWER_CLOSERS_def
  strip_def is_space_def random_random_def float_0_3_def submit_response_def pause_def time_sleep_def summary_def
  refs_def lower_def base_url_of_def frontend_url_of_def delay_of_def default_args_def
  example_args_def example_rng_def accepting_backend_def failing_backend_def created_def
  accepted_def server_error_def not_found_def printed_def submitted_names_def submit_requests_def
  run_lines_def run_outcome_def session_request_def

lemma example_run_failing:
  "\<exists>out. main example_args failing_backend example_rng = Some (Completed, out) \<and>
     submitted_names out = [''Alex Smith'', ''Jordan Smith'', ''Taylor Johnson''] \<and>
     printed out =
       [''Created session: abc123'',
        ''  Student URL: http://localhost:8000/session/abc123'',
        ''  Admin URL:   http://localhost:8000/session/abc123/admin?token=tok'',
        CHR 0x0A # ''Submitting 3 fake student responses...'',
        ''  [1/3] Alex Smith: I think that the key is to consider multiple persp...'',
        ''  [2/3] FAILED: 500 - Internal Server Error'',
        ''  [3/3] Taylor Johnson: In my opinion, we need to balance theory with prac...'',
        CHR 0x0A # ''Done! Open the admin dashboard to see the summarized themes.'',
        ''  http://localhost:8000/session/abc123/admin?token=tok''] \<and>
     Sleep (1 / 2) \<in> set out"
  by (simp add: run_simps)

lemma example_run_accepting:
  "\<exists>out. main example_args accepting_backend example_rng = Some (Completed, out)"
  by (simp add: run_simps)


theorem generated_names_distinct_witness:
  "arg_count example_args \<le> 600 \<and>
   (\<exists>out. main example_args failing_backend example_rng = Some (Completed, out) \<and>
      submitted_names out = [''Alex Smith'', ''Jordan Smith'', ''Taylor Johnson''] \<and>
      distinct (submitted_names out))"
proof -
  obtain out where run: "main example_args failing_backend example_rng = Some (Completed, out)"
    and names: "submitted_names out = [''Alex Smith'', ''Jordan Smith'', ''Taylor Johnson'']"
    using example_run_failing by blast
  have le: "arg_count example_args \<le> 600"
    by (simp add: example_args_def default_args_def)
  from generated_names_distinct [OF le run] run names le show ?thesis by blast
qed


theorem failed_submission_does_not_stop_loop_witness:
  "(\<exists>out0. main example_args accepting_backend example_rng = Some (Completed, out0)) \<and>
   failing_backend (session_request example_args) = accepting_backend (session_request example_args) \<and>
   (\<exists>out. main example_args failing_backend example_rng = Some (Completed, out) \<and>
      length (submit_requests out) = 3 \<and>
      failing_backend (submit_requests out ! 1) = Inr server_error \<and>
      Print ''  [2/3] FAILED: 500 - Internal Server Error'' \<in> set out)"
proof -
  obtain out0 where ref: "main example_args accepting_backend example_rng = Some (Completed, out0)"
    using example_run_accepting by blast
  have same: "failing_backend (session_request example_args) = accepting_backend (session_request example_args)"
    by (simp add: failing_backend_def session_request_def example_args_def default_args_def truthy_def)
  from failed_submission_does_not_stop_loop [of example_args accepting_backend example_rng out0 failing_backend, OF ref same]
  obtain out where run: "main example_args failing_backend example_rng = Some (Completed, out)"
    and len: "length (submit_requests out) = nat (arg_count example_args)"
    and fail: "\<forall>k < nat (arg_count example_args).
              (\<forall>resp. failing_backend (submit_requests out ! k) = Inr resp \<and> \<not> is_success resp \<longrightarrow>
                 Print (''  ['' @ str_int (int k + 1) @ ''/'' @ str_int (arg_count example_args) @ ''] FAILED: '' @
                        str_nat (status_code resp) @ '' - '' @ text resp) \<in> set out)"
    by blast
  have n: "nat (arg_count example_args) = 3"
    by (simp add: example_args_def default_args_def)
  have "submitted_names out = [''Alex Smith'', ''Jordan Smith'', ''Taylor Johnson'']"
    using example_run_failing run by auto
  then have "map student_name_of (submit_requests out) ! 1 = ''Jordan Smith''"
    by (simp add: submitted_names_def)
  then have "student_name_of (submit_requests out ! 1) = ''Jordan Smith''"
    using len n by simp
  then have b: "failing_backend (submit_requests out ! 1) = Inr server_error"
    by (simp add: failing_backend_def)
  have "\<not> is_success server_error"
    by (simp add: server_error_def is_success_def)
  moreover have "(1::nat) < nat (arg_count example_args)" using n by simp
  ultimately have "Print (''  ['' @ str_int (int 1 + 1) @ ''/'' @ str_int (arg_count example_args) @ ''] FAILED: '' @
                        str_nat (status_code server_error) @ '' - '' @ text server_error) \<in> set out"
    using fail b by blast
  then have "Print ''  [2/3] FAILED: 500 - Internal Server Error'' \<in> set out"
    by (simp add: str_int_def example_args_def default_args_def server_error_def)
  with ref same run len n b show ?thesis by auto
qed

subsection \<open>Pauses\<close>

lemma blocks_Cons:
  "blocks b base_url session_id n delay (i # is) (item # items) =
     attempt b base_url session_id n i item @ pause_events delay i n @
     blocks b base_url session_id n delay is items"
  by (simp add: blocks_def)

lemma blocks_Nil [simp]: "blocks b base_url session_id n delay is [] = []"
  by (simp add: blocks_def)

lemma pause_events_cases:
  "pause_events delay i n = [] \<or> pause_events delay i n = [Sleep delay] \<and> delay \<noteq> 0 \<and> i < n - 1"
  by (simp add: pause_events_def pause_def time_sleep_def)

lemma sleep_in_blocks:
  "Sleep x \<in> set (blocks b base_url session_id n delay is items) \<Longrightarrow> delay \<noteq> 0 \<and> x = delay"
proof (induction items arbitrary: "is")
  case Nil
  then show ?case by simp
next
  case (Cons item items)
  show ?case
  proof (cases "is")
    case Nil
    with Cons.prems show ?thesis by (simp add: blocks_def)
  next
    case (Cons i is')
    have "Sleep x \<notin> set (attempt b base_url session_id n i item)"
      by (simp add: attempt_def)
    with Cons.prems Cons Cons.IH [of is'] pause_events_cases [of delay i n]
    show ?thesis by (auto simp: blocks_Cons)
  qed
qed

lemma after_last_submission_append:
  "submit_requests ys = [] \<Longrightarrow> after_last_submission (xs @ ys) = after_last_submission xs @ ys"
proof -
  assume "submit_requests ys = []"
  then have "\<And>e. e \<in> set (rev ys) \<Longrightarrow> submit_request e = []"
    by (auto simp: submit_requests_def)
  then have "takeWhile (\<lambda>e. submit_request e = []) (rev ys @ rev xs) =
      rev ys @ takeWhile (\<lambda>e. submit_request e = []) (rev xs)"
    by (rule takeWhile_append2)
  then show ?thesis by (simp add: after_last_submission_def)
qed

lemma after_last_submission_submit:
  "submit_request e \<noteq> [] \<Longrightarrow> after_last_submission (xs @ [e]) = []"
  by (simp add: after_last_submission_def)

lemma after_last_submission_subset: "set (after_last_submission out) \<subseteq> set out"
  unfolding after_last_submission_def using set_takeWhileD by fastforce

lemma after_last_submission_blocks:
  assumes "items \<noteq> []" "length items \<le> length is"
  shows "\<exists>l. after_last_submission (pre @ blocks b base_url session_id n delay is items) =
           Print l # pause_events delay (is ! (length items - 1)) n"
  using assms
proof (induction items arbitrary: "is" pre)
  case Nil
  then show ?case by simp
next
  case (Cons item items)
  then obtain i is' where "is": "is = i # is'" by (cases "is") auto
  show ?case
  proof (cases "items = []")
    case True
    let ?req = "Http (Post (base_url @ ''/api/sessions/'' @ session_id @ ''/responses'')
              [(''student_name'', fst item), (''answer'', snd item)] 10)"
    let ?l = "report i n (fst item) (snd item)
               (fst (submit_response b base_url session_id (fst item) (snd item)))"
    have "pre @ blocks b base_url session_id n delay is (item # items) =
        (pre @ [?req]) @ (Print ?l # pause_events delay i n)"
      using True "is" by (simp add: blocks_Cons attempt_def)
    moreover have "submit_requests (Print ?l # pause_events delay i n) = []"
      using pause_events_cases [of delay i n] by auto
    ultimately have "after_last_submission (pre @ blocks b base_url session_id n delay is (item # items)) =
        after_last_submission (pre @ [?req]) @ (Print ?l # pause_events delay i n)"
      by (simp only: after_last_submission_append)
    moreover have "after_last_submission (pre @ [?req]) = []"
      by (rule after_last_submission_submit) simp
    ultimately show ?thesis using True "is" by simp
  next
    case False
    have len: "length items \<le> length is'" using Cons.prems "is" by simp
    from Cons.IH [OF False len, of "pre @ attempt b base_url session_id n i item @ pause_events delay i n"]
    obtain l where "after_last_submission
          ((pre @ attempt b base_url session_id n i item @ pause_events delay i n) @
           blocks b base_url session_id n delay is' items) =
         Print l # pause_events delay (is' ! (length items - 1)) n"
      by blast
    moreover have "(i # is') ! (length (item # items) - 1) = is' ! (length items - 1)"
      using False by (cases items) auto
    ultimately show ?thesis using "is" by (simp add: blocks_Cons)
  qed
qed

lemma summary_no_sleep: "Sleep x \<notin> set (summary F sid admin)"
  by (simp add: summary_def)

lemma pause_error_events: "pause_error delay i n = Some e \<Longrightarrow> pause_events delay i n = []"
  by (simp add: pause_error_def pause_events_def split: sum.splits)

text \<open>
  Claim C7. In every run that returns: with \<^verbatim>\<open>--no-delay\<close> there is no pause at all,
  whatever the configured delay; and in any case no pause follows the last submission
  call, so none follows the final iteration.
\<close>

theorem no_pause_when_disabled_or_last:
  assumes "main a b g = Some (res, out)"
  shows "(arg_no_delay a \<longrightarrow> (\<forall>x. Sleep x \<notin> set out)) \<and>
         (\<forall>x. Sleep x \<notin> set (after_last_submission out))"
  using main_structure [OF assms]
proof (elim disjE conjE exE)
  assume "get_or_create_session a b (base_url_of a) (frontend_url_of a) = (Inl res, out)"
  then have "\<forall>x. Sleep x \<notin> set out"
    using resolution_no_sleep [of _ a b "frontend_url_of a"] by simp
  then show ?thesis using after_last_submission_subset [of out] by blast
next
  fix sid admin q out0 items
  assume r: "get_or_create_session a b (base_url_of a) (frontend_url_of a) = (Inr (sid, admin, q), out0)"
    and le: "length items \<le> nat (arg_count a)"
    and fin: "res = Completed \<longrightarrow> length items = nat (arg_count a)"
    and crash: "res \<noteq> Completed \<longrightarrow> items \<noteq> [] \<and>
          (\<exists>e. res = Crashed e \<and> Some e = pause_error (delay_of a) (int (length items - 1)) (arg_count a))"
    and out: "out = out0 @ [Print (CHR 0x0A # ''Submitting '' @ str_int (arg_count a) @ '' fake student responses...'')]
               @ blocks b (base_url_of a) sid (arg_count a) (delay_of a) (py_range (arg_count a)) items
               @ (if res = Completed then summary (frontend_url_of a) sid admin else [])"
  let ?pre = "out0 @ [Print (CHR 0x0A # ''Submitting '' @ str_int (arg_count a) @ '' fake student responses...'')]"
  let ?bl = "blocks b (base_url_of a) sid (arg_count a) (delay_of a) (py_range (arg_count a)) items"
  let ?post = "if res = Completed then summary (frontend_url_of a) sid admin else []"
  have nosleep0: "Sleep x \<notin> set out0" for x
    using resolution_no_sleep [of x a b "frontend_url_of a"] r by simp
  have first: "arg_no_delay a \<longrightarrow> (\<forall>x. Sleep x \<notin> set out)"
  proof (intro impI allI notI)
    fix x assume nd: "arg_no_delay a" and "Sleep x \<in> set out"
    then have "Sleep x \<in> set ?bl"
      using nosleep0 summary_no_sleep unfolding out by (auto split: if_splits)
    then have "delay_of a \<noteq> 0" using sleep_in_blocks by blast
    with nd show False by (simp add: delay_of_def)
  qed
  have second: "Sleep x \<notin> set (after_last_submission out)" for x
  proof (cases "items = []")
    case True
    then have "Sleep x \<notin> set out"
      using nosleep0 summary_no_sleep unfolding out by (auto split: if_splits)
    then show ?thesis using after_last_submission_subset [of out] by blast
  next
    case False
    have lr: "length items \<le> length (py_range (arg_count a))"
      using le by (simp add: py_range_def)
    have nth: "py_range (arg_count a) ! (length items - 1) = int (length items - 1)"
      using le False by (cases items) (auto simp: py_range_def)
    obtain l where l: "after_last_submission (?pre @ ?bl) =
        Print l # pause_events (delay_of a) (int (length items - 1)) (arg_count a)"
      using after_last_submission_blocks [OF False lr, of ?pre b "base_url_of a" sid "arg_count a" "delay_of a"]
      unfolding nth by blast
    have pe: "pause_events (delay_of a) (int (length items - 1)) (arg_count a) = []"
    proof (cases "res = Completed")
      case True
      with fin have "length items = nat (arg_count a)" by simp
      then have "\<not> int (length items - 1) < arg_count a - 1" using False by (cases items) auto
      then show ?thesis by (simp add: pause_events_def pause_def time_sleep_def)
    next
      case False
      with crash show ?thesis using pause_error_events by metis
    qed
    have "submit_requests ?post = []" by simp
    then have "after_last_submission ((?pre @ ?bl) @ ?post) = after_last_submission (?pre @ ?bl) @ ?post"
      by (rule after_last_submission_append)
    then have "after_last_submission out = Print l # ?post"
      unfolding out using l pe by simp
    then show ?thesis using summary_no_sleep by (auto split: if_splits)
  qed
  from first second show ?thesis by blast
qed

lemma example_run_no_delay:
  "\<exists>out. main (example_args\<lparr>arg_delay := 2, arg_no_delay := True\<rparr>) failing_backend example_rng
           = Some (Completed, out)"
  by (simp add: run_simps)

theorem no_pause_when_disabled_or_last_witness:
  "arg_no_delay (example_args\<lparr>arg_delay := 2, arg_no_delay := True\<rparr>) \<and>
   (\<exists>out. main (example_args\<lparr>arg_delay := 2, arg_no_delay := True\<rparr>) failing_backend example_rng
            = Some (Completed, out) \<and>
      (\<forall>x. Sleep x \<notin> set out)) \<and>
   (\<exists>out. main example_args failing_backend example_rng = Some (Completed, out) \<and>
      Sleep (1 / 2) \<in> set out \<and> (\<forall>x. Sleep x \<notin> set (after_last_submission out)))"
proof -
  obtain out where run: "main (example_args\<lparr>arg_delay := 2, arg_no_delay := True\<rparr>) failing_backend example_rng
           = Some (Completed, out)"
    using example_run_no_delay by blast
  have nd: "arg_no_delay (example_args\<lparr>arg_delay := 2, arg_no_delay := True\<rparr>)" by simp
  obtain out' where run': "main example_args failing_backend example_rng = Some (Completed, out')"
    and sleep: "Sleep (1 / 2) \<in> set out'"
    using example_run_failing by blast
  from no_pause_when_disabled_or_last [OF run] no_pause_when_disabled_or_last [OF run'] nd run run' sleep
  show ?thesis by blast
qed

subsection \<open>The summary\<close>

lemma create_session_result:
  assumes "b (Post (base_url @ ''/api/sessions'') [(''question'', question)] 10) = Inr resp"
    and "create_session b base_url question frontend_url = (Inr data', out)"
  shows "json resp = Inr data'"
  using assms
  by (simp add: create_session_def Let_def raise_for_status_def
      split: sum.splits option.splits if_splits)

lemma create_session_needs_response:
  assumes "create_session b base_url question frontend_url = (Inr data', out)"
  shows "\<exists>resp. b (Post (base_url @ ''/api/sessions'') [(''question'', question)] 10) = Inr resp"
  using assms
  by (cases "b (Post (base_url @ ''/api/sessions'') [(''question'', question)] 10)")
     (simp_all add: create_session_def Let_def)

text \<open>
  What the resolution of the session gives: on the reuse path the configured identifier and
  no admin link; on the create path the identifier of the response, and the admin link
  built from its token when the token is there and not empty.
\<close>

lemma resolution_result:
  assumes "get_or_create_session a b (base_url_of a) F = (Inr (sid, admin, q), out1)"
  shows "\<exists>token.
           admin = (if token \<noteq> [] then Some (F @ ''/session/'' @ sid @ ''/admin?token='' @ token) else None) \<and>
           (if truthy (arg_session_id a) then sid = the (arg_session_id a) \<and> token = []
            else \<exists>resp data. b (session_request a) = Inr resp \<and> json resp = Inr data \<and>
                   data ''session_id'' = Some sid \<and>
                   token = (case data ''admin_token'' of None \<Rightarrow> [] | Some tok \<Rightarrow> tok))"
proof (cases "truthy (arg_session_id a)")
  case True
  with assms have "sid = the (arg_session_id a) \<and> admin = None"
    by (simp add: get_or_create_session_def Let_def split: sum.splits)
  with True show ?thesis by (intro exI [of _ "[]"]) simp
next
  case False
  from assms False obtain data out where
    c: "create_session b (base_url_of a) (arg_question a) (Some F) = (Inr data, out)"
    and sid: "data ''session_id'' = Some sid"
    and admin: "admin = (if (case data ''admin_token'' of None \<Rightarrow> [] | Some tok \<Rightarrow> tok) \<noteq> []
        then Some (F @ ''/session/'' @ sid @ ''/admin?token='' @ (case data ''admin_token'' of None \<Rightarrow> [] | Some tok \<Rightarrow> tok))
        else None)"
    by (simp add: get_or_create_session_def Let_def split: sum.splits prod.splits option.splits)
  obtain resp where resp: "b (Post (base_url_of a @ ''/api/sessions'') [(''question'', arg_question a)] 10) = Inr resp"
    using create_session_needs_response [OF c] by blast
  then have "json resp = Inr data"
    using create_session_result c by blast
  moreover have "b (session_request a) = Inr resp"
    using resp False by (simp add: session_request_def)
  ultimately show ?thesis
    using False sid admin
    by (intro exI [of _ "case data ''admin_token'' of None \<Rightarrow> [] | Some tok \<Rightarrow> tok"]) auto
qed

lemma summary_lines:
  assumes "admin = (if token \<noteq> [] then Some (F @ ''/session/'' @ sid @ ''/admin?token='' @ token) else None)"
  shows "summary F sid admin =
           [Print (CHR 0x0A # ''Done! Open the admin dashboard to see the summarized themes.''),
            Print (''  '' @ F @ ''/session/'' @ sid @ ''/admin?token='' @
                   (if token = [] then ''<your-admin-token>'' else token))]"
  using assms by (simp add: summary_def truthy_def)

lemma report_label:
  "\<exists>rest. report i n name answer res = ''  ['' @ str_int (i + 1) @ ''/'' @ str_int n @ ''] '' @ rest"
proof (cases res)
  case (Inr result)
  then show ?thesis by simp
next
  case (Inl e)
  then show ?thesis by (cases e) simp_all
qed

text \<open>
  Claim C9, as amended. Suppose the run completes against some backend \<open>b0\<close>. Then against
  every backend \<open>b\<close> that answers the session request as \<open>b0\<close> does, however many
  submissions it refuses, the run completes, and its events are: the events of the session
  resolution, with no submission call; the line \<^verbatim>\<open>Submitting {count} fake student
  responses...\<close>; the events of the loop, with \<^verbatim>\<open>count\<close> submission calls and, for each item
  \<open>k\<close>, a line that starts with the label \<^verbatim>\<open>[k/count]\<close>; and the summary, which is the
  line \<^verbatim>\<open>Done! ...\<close> and the admin link of the session. The link ends with the admin
  token of the create response when there is one that is not empty, and with the
  placeholder \<^verbatim>\<open><your-admin-token>\<close> otherwise (always so on the reuse path). The number
  of items is in the line before the loop and in the labels, not in the summary.
\<close>

theorem summary_after_all_iterations:
  assumes ref: "main a b0 g = Some (Completed, out0)"
    and same: "b (session_request a) = b0 (session_request a)"
  shows "\<exists>out pre loop sid token.
           main a b g = Some (Completed, out) \<and>
           out = pre @
             Print (CHR 0x0A # ''Submitting '' @ str_int (arg_count a) @ '' fake student responses...'') #
             loop @
             [Print (CHR 0x0A # ''Done! Open the admin dashboard to see the summarized themes.''),
              Print (''  '' @ frontend_url_of a @ ''/session/'' @ sid @ ''/admin?token='' @
                     (if token = [] then ''<your-admin-token>'' else token))] \<and>
           (if truthy (arg_session_id a) then sid = the (arg_session_id a) \<and> token = []
            else \<exists>resp data. b (session_request a) = Inr resp \<and> json resp = Inr data \<and>
                   data ''session_id'' = Some sid \<and>
                   token = (case data ''admin_token'' of None \<Rightarrow> [] | Some tok \<Rightarrow> tok)) \<and>
           submit_requests pre = [] \<and>
           length (submit_requests loop) = nat (arg_count a) \<and>
           (\<forall>k < nat (arg_count a).
              \<exists>rest. Print (''  ['' @ str_int (int k + 1) @ ''/'' @ str_int (arg_count a) @ ''] '' @ rest)
                       \<in> set loop)"
proof -
  obtain out where run: "main a b g = Some (Completed, out)"
    using main_completes_as_reference [of a b0 g out0 b] ref same by blast
  have "\<exists>sid admin q out1 items.
      get_or_create_session a b (base_url_of a) (frontend_url_of a) = (Inr (sid, admin, q), out1) \<and>
      length items = nat (arg_count a) \<and>
      out = out1 @ [Print (CHR 0x0A # ''Submitting '' @ str_int (arg_count a) @ '' fake student responses...'')]
               @ blocks b (base_url_of a) sid (arg_count a) (delay_of a) (py_range (arg_count a)) items
               @ summary (frontend_url_of a) sid admin"
    using main_structure [OF run] by simp blast
  then obtain sid admin q out1 items where
    r: "get_or_create_session a b (base_url_of a) (frontend_url_of a) = (Inr (sid, admin, q), out1)"
    and len: "length items = nat (arg_count a)"
    and out: "out = out1 @ [Print (CHR 0x0A # ''Submitting '' @ str_int (arg_count a) @ '' fake student responses...'')]
               @ blocks b (base_url_of a) sid (arg_count a) (delay_of a) (py_range (arg_count a)) items
               @ summary (frontend_url_of a) sid admin"
    by blast
  let ?loop = "blocks b (base_url_of a) sid (arg_count a) (delay_of a) (py_range (arg_count a)) items"
  from resolution_result [OF r] obtain token where
    admin: "admin = (if token \<noteq> [] then Some (frontend_url_of a @ ''/session/'' @ sid @ ''/admin?token='' @ token) else None)"
    and src: "if truthy (arg_session_id a) then sid = the (arg_session_id a) \<and> token = []
            else \<exists>resp data. b (session_request a) = Inr resp \<and> json resp = Inr data \<and>
                   data ''session_id'' = Some sid \<and>
                   token = (case data ''admin_token'' of None \<Rightarrow> [] | Some tok \<Rightarrow> tok)"
    by blast
  have lr: "length items \<le> length (py_range (arg_count a))"
    using len by (simp add: py_range_def)
  have pre: "submit_requests out1 = []"
    using resolution_no_submissions [of a b "frontend_url_of a"] r by simp
  have loop: "length (submit_requests ?loop) = nat (arg_count a)"
    using lr len by (simp add: submit_requests_blocks)
  have labels: "\<exists>rest. Print (''  ['' @ str_int (int k + 1) @ ''/'' @ str_int (arg_count a) @ ''] '' @ rest)
                       \<in> set ?loop"
    if k: "k < nat (arg_count a)" for k
  proof -
    have "set (attempt b (base_url_of a) sid (arg_count a) (py_range (arg_count a) ! k) (items ! k))
        \<subseteq> set ?loop"
      using k len lr by (intro attempt_in_blocks) simp_all
    moreover have "py_range (arg_count a) ! k = int k"
      using k by (simp add: py_range_def)
    ultimately have "set (attempt b (base_url_of a) sid (arg_count a) (int k) (items ! k)) \<subseteq> set ?loop"
      by (simp only:)
    then have "Print (report (int k) (arg_count a) (fst (items ! k)) (snd (items ! k))
                 (fst (submit_response b (base_url_of a) sid (fst (items ! k)) (snd (items ! k))))) \<in> set ?loop"
      by (simp add: attempt_def)
    moreover obtain rest where "report (int k) (arg_count a) (fst (items ! k)) (snd (items ! k))
                 (fst (submit_response b (base_url_of a) sid (fst (items ! k)) (snd (items ! k)))) =
        ''  ['' @ str_int (int k + 1) @ ''/'' @ str_int (arg_count a) @ ''] '' @ rest"
      using report_label by blast
    ultimately show ?thesis by (intro exI [of _ rest]) (simp only:)
  qed
  have "out = out1 @
             Print (CHR 0x0A # ''Submitting '' @ str_int (arg_count a) @ '' fake student responses...'') #
             ?loop @
             [Print (CHR 0x0A # ''Done! Open the admin dashboard to see the summarized themes.''),
              Print (''  '' @ frontend_url_of a @ ''/session/'' @ sid @ ''/admin?token='' @
                     (if token = [] then ''<your-admin-token>'' else token))]"
    unfolding out summary_lines [OF admin] by simp
  with run src pre loop labels show ?thesis by blast
qed

text \<open>
  Claim C9, as stated, fails: the summary of a run of three items and the summary of a run
  of no item are the same two lines; neither reports the number of items.
\<close>

theorem summary_without_total_counterexample:
  "run_outcome (main example_args failing_backend example_rng) = Some Completed \<and>
   run_outcome (main (example_args\<lparr>arg_count := 0\<rparr>) failing_backend example_rng) = Some Completed \<and>
   run_lines (main example_args failing_backend example_rng) =
       [''Created session: abc123'',
        ''  Student URL: http://localhost:8000/session/abc123'',
        ''  Admin URL:   http://localhost:8000/session/abc123/admin?token=tok'',
        CHR 0x0A # ''Submitting 3 fake student responses...'',
        ''  [1/3] Alex Smith: I think that the key is to consider multiple persp...'',
        ''  [2/3] FAILED: 500 - Internal Server Error'',
        ''  [3/3] Taylor Johnson: In my opinion, we need to balance theory with prac...'',
        CHR 0x0A # ''Done! Open the admin dashboard to see the summarized themes.'',
        ''  http://localhost:8000/session/abc123/admin?token=tok''] \<and>
   run_lines (main (example_args\<lparr>arg_count := 0\<rparr>) failing_backend example_rng) =
       [''Created session: abc123'',
        ''  Student URL: http://localhost:8000/session/abc123'',
        ''  Admin URL:   http://localhost:8000/session/abc123/admin?token=tok'',
        CHR 0x0A # ''Submitting 0 fake student responses...'',
        CHR 0x0A # ''Done! Open the admin dashboard to see the summarized themes.'',
        ''  http://localhost:8000/session/abc123/admin?token=tok'']"
  by (simp add: run_simps)

theorem summary_after_all_iterations_witness:
  "(\<exists>out0. main example_args accepting_backend example_rng = Some (Completed, out0)) \<and>
   failing_backend (session_request example_args) = accepting_backend (session_request example_args) \<and>
   (\<exists>out pre loop.
      main example_args failing_backend example_rng = Some (Completed, out) \<and>
      out = pre @
        Print (CHR 0x0A # ''Submitting 3 fake student responses...'') #
        loop @
        [Print (CHR 0x0A # ''Done! Open the admin dashboard to see the summarized themes.''),
         Print ''  http://localhost:8000/session/abc123/admin?token=tok''] \<and>
      submit_requests pre = [] \<and>
      length (submit_requests loop) = 3 \<and>
      (\<exists>rest. Print (''  [2/3] '' @ rest) \<in> set loop))"
proof -
  obtain out0 where ref: "main example_args accepting_backend example_rng = Some (Completed, out0)"
    using example_run_accepting by blast
  have same: "failing_backend (session_request example_args) = accepting_backend (session_request example_args)"
    by (simp add: failing_backend_def session_request_def example_args_def default_args_def truthy_def)
  have n: "nat (arg_count example_args) = 3" "str_int (arg_count example_args) = ''3''"
    by (simp_all add: example_args_def default_args_def str_int_def)
  have create: "\<not> truthy (arg_session_id example_args)"
    by (simp add: example_args_def default_args_def truthy_def)
  have fe: "frontend_url_of example_args = ''http://localhost:8000''"
    by (simp add: frontend_url_of_def base_url_of_def example_args_def default_args_def truthy_def
        rstrip_localhost)
  have resp: "failing_backend (session_request example_args) = Inr created"
    by (simp add: failing_backend_def accepting_backend_def session_request_def example_args_def
        default_args_def truthy_def)
  from summary_after_all_iterations [of example_args accepting_backend example_rng out0 failing_backend, OF ref same]
  obtain out pre loop sid token where
    run: "main example_args failing_backend example_rng = Some (Completed, out)"
    and out: "out = pre @
             Print (CHR 0x0A # ''Submitting '' @ str_int (arg_count example_args) @ '' fake student responses...'') #
             loop @
             [Print (CHR 0x0A # ''Done! Open the admin dashboard to see the summarized themes.''),
              Print (''  '' @ frontend_url_of example_args @ ''/session/'' @ sid @ ''/admin?token='' @
                     (if token = [] then ''<your-admin-token>'' else token))]"
    and src: "if truthy (arg_session_id example_args) then sid = the (arg_session_id example_args) \<and> token = []
            else \<exists>resp data. failing_backend (session_request example_args) = Inr resp \<and> json resp = Inr data \<and>
                   data ''session_id'' = Some sid \<and>
                   token = (case data ''admin_token'' of None \<Rightarrow> [] | Some tok \<Rightarrow> tok)"
    and pre: "submit_requests pre = []"
    and loop: "length (submit_requests loop) = nat (arg_count example_args)"
    and labels: "\<forall>k < nat (arg_count example_args).
              \<exists>rest. Print (''  ['' @ str_int (int k + 1) @ ''/'' @ str_int (arg_count example_args) @ ''] '' @ rest)
                       \<in> set loop"
    by blast
  from src create resp have "sid = ''abc123'' \<and> token = ''tok''"
    by (auto simp: created_def)
  then have out': "out = pre @
        Print (CHR 0x0A # ''Submitting 3 fake student responses...'') #
        loop @
        [Print (CHR 0x0A # ''Done! Open the admin dashboard to see the summarized themes.''),
         Print ''  http://localhost:8000/session/abc123/admin?token=tok'']"
    using out by (simp add: n fe)
  have "(1::nat) < nat (arg_count example_args)" by (simp add: n)
  with labels have "\<exists>rest. Print (''  ['' @ str_int (int 1 + 1) @ ''/'' @ str_int (arg_count example_args) @ ''] '' @ rest)
                       \<in> set loop"
    by blast
  moreover have "str_int (int 1 + 1) = ''2''"
    by (simp add: str_int_def)
  ultimately have "\<exists>rest. Print (''  [2/3] '' @ rest) \<in> set loop"
    by (simp add: n)
  with ref same run out' pre loop n show ?thesis by auto
qed

subsection \<open>The admin link\<close>

lemma rstrip_examples:
  "rstrip CHR ''/'' ''http://localhost:5173/'' = ''http://localhost:5173''"
  "rstrip CHR ''/'' ''http://localhost:5173'' = ''http://localhost:5173''"
  "rstrip CHR ''/'' ''/'' = []"
  "rstrip CHR ''/'' [] = []"
  by (simp_all add: rstrip_def)

text \<open>
  Claim C5, as stated, fails at four inputs, each with a create response that contains a
  session id and an admin token.
  \<^item> The frontend URL is configured as \<^verbatim>\<open>http://localhost:5173/\<close>: the link printed, at
    creation and in the summary, is built from \<^verbatim>\<open>http://localhost:5173\<close>, the URL in effect
    after line 187, and not from the URL as configured.
  \<^item> The frontend URL is configured as \<^verbatim>\<open>/\<close>, so the URL in effect is empty: the line
    printed at creation shows the \<^verbatim>\<open>admin_url\<close> of the response, not the link built from
    the session id and the token.
  \<^item> The admin token of the response is the empty string: the summary shows the
    placeholder, not the link that ends with the token.
  \<^item> The response has no \<^verbatim>\<open>student_url\<close>: \<^verbatim>\<open>create_session\<close> raises \<^verbatim>\<open>KeyError\<close> on line
    126 and no admin link is printed at all.
\<close>

theorem admin_link_configured_url_counterexample:
  "run_outcome (main slash_args accepting_backend example_rng) = Some Completed \<and>
   run_lines (main slash_args accepting_backend example_rng) =
     [''Created session: abc123'',
      ''  Student URL: http://localhost:8000/session/abc123'',
      ''  Admin URL:   http://localhost:5173/session/abc123/admin?token=tok'',
      CHR 0x0A # ''Submitting 0 fake student responses...'',
      CHR 0x0A # ''Done! Open the admin dashboard to see the summarized themes.'',
      ''  http://localhost:5173/session/abc123/admin?token=tok''] \<and>
   arg_frontend_url slash_args = Some ''http://localhost:5173/'' \<and>
   ''http://localhost:5173/'' @ ''/session/'' @ ''abc123'' @ ''/admin?token='' @ ''tok''
     \<noteq> ''http://localhost:5173/session/abc123/admin?token=tok'' \<and>
   frontend_url_of slash_only_args = [] \<and>
   run_outcome (main slash_only_args accepting_backend example_rng) = Some Completed \<and>
   run_lines (main slash_only_args accepting_backend example_rng) =
     [''Created session: abc123'',
      ''  Student URL: http://localhost:8000/session/abc123'',
      ''  Admin URL:   http://localhost:8000/session/abc123/admin'',
      CHR 0x0A # ''Submitting 0 fake student responses...'',
      CHR 0x0A # ''Done! Open the admin dashboard to see the summarized themes.'',
      ''  /session/abc123/admin?token=tok''] \<and>
   run_outcome (main no_item_args (creating_backend created_with_empty_token) example_rng) = Some Completed \<and>
   run_lines (main no_item_args (creating_backend created_with_empty_token) example_rng) =
     [''Created session: abc123'',
      ''  Student URL: http://localhost:8000/session/abc123'',
      ''  Admin URL:   http://localhost:8000/session/abc123/admin?token='',
      CHR 0x0A # ''Submitting 0 fake student responses...'',
      CHR 0x0A # ''Done! Open the admin dashboard to see the summarized themes.'',
      ''  http://localhost:8000/session/abc123/admin?token=<your-admin-token>''] \<and>
   run_outcome (main no_item_args (creating_backend created_without_student_url) example_rng) =
     Some (Crashed (KeyError ''student_url'')) \<and>
   run_lines (main no_item_args (creating_backend created_without_student_url) example_rng) =
     [''Created session: abc123'']"
  by (simp add: run_simps slash_args_def slash_only_args_def no_item_args_def creating_backend_def
      created_with_empty_token_def created_without_student_url_def)

text \<open>
  Claim C5, as amended. On the create path, when the backend response contains a session
  id and an admin token, the admin link is \<^verbatim>\<open>{F}/session/{sessionId}/admin?token={adminToken}\<close>
  where \<open>F\<close> is the frontend URL in effect after line 187: the configured frontend URL, or
  the base URL when none is configured, without its trailing slashes. This link is printed
  at the creation of the session when \<open>F\<close> is not empty and the response has a student
  URL, as the last of the four events of the creation; and it is the last line of the
  summary of every run that completes when the token is not empty.
\<close>

theorem admin_link_from_frontend_url_in_effect:
  assumes create: "\<not> truthy (arg_session_id a)"
    and resp: "b (session_request a) = Inr resp" "is_success resp" "json resp = Inr data"
    and fields: "data ''session_id'' = Some sid" "data ''admin_token'' = Some tok"
    and link: "link = frontend_url_of a @ ''/session/'' @ sid @ ''/admin?token='' @ tok"
  shows "(\<forall>student_url.
            frontend_url_of a \<noteq> [] \<and> data ''student_url'' = Some student_url \<longrightarrow>
              get_or_create_session a b (base_url_of a) (frontend_url_of a) =
                (Inr (sid, if tok \<noteq> [] then Some link else None, arg_question a),
                 [Http (session_request a), Print (''Created session: '' @ sid),
                  Print (''  Student URL: '' @ student_url), Print (''  Admin URL:   '' @ link)]) \<and>
              (\<forall>res out. main a b g = Some (res, out) \<longrightarrow>
                 take 4 out = [Http (session_request a), Print (''Created session: '' @ sid),
                               Print (''  Student URL: '' @ student_url),
                               Print (''  Admin URL:   '' @ link)])) \<and>
         (tok \<noteq> [] \<longrightarrow>
            (\<forall>out. main a b g = Some (Completed, out) \<longrightarrow> last out = Print (''  '' @ link)))"
proof (intro conjI allI impI)
  fix student_url
  assume h: "frontend_url_of a \<noteq> [] \<and> data ''student_url'' = Some student_url"
  show r: "get_or_create_session a b (base_url_of a) (frontend_url_of a) =
                (Inr (sid, if tok \<noteq> [] then Some link else None, arg_question a),
                 [Http (session_request a), Print (''Created session: '' @ sid),
                  Print (''  Student URL: '' @ student_url), Print (''  Admin URL:   '' @ link)])"
    using assms h
    by (simp add: get_or_create_session_def create_session_def session_request_def
        raise_for_status_def truthy_def Let_def)
  fix res out
  assume run: "main a b g = Some (res, out)"
  from main_structure [OF run] r obtain items post where
    "out = [Http (session_request a), Print (''Created session: '' @ sid),
                  Print (''  Student URL: '' @ student_url), Print (''  Admin URL:   '' @ link)]
             @ [Print (CHR 0x0A # ''Submitting '' @ str_int (arg_count a) @ '' fake student responses...'')]
             @ blocks b (base_url_of a) sid (arg_count a) (delay_of a) (py_range (arg_count a)) items
             @ post"
    by auto
  then show "take 4 out = [Http (session_request a), Print (''Created session: '' @ sid),
                               Print (''  Student URL: '' @ student_url),
                               Print (''  Admin URL:   '' @ link)]"
    by simp
next
  fix out
  assume tok: "tok \<noteq> []" and run: "main a b g = Some (Completed, out)"
  have "\<exists>sid' admin q out1 items.
      get_or_create_session a b (base_url_of a) (frontend_url_of a) = (Inr (sid', admin, q), out1) \<and>
      out = out1 @ [Print (CHR 0x0A # ''Submitting '' @ str_int (arg_count a) @ '' fake student responses...'')]
               @ blocks b (base_url_of a) sid' (arg_count a) (delay_of a) (py_range (arg_count a)) items
               @ summary (frontend_url_of a) sid' admin"
    using main_structure [OF run] by simp blast
  then obtain sid' admin q out1 items where
    r: "get_or_create_session a b (base_url_of a) (frontend_url_of a) = (Inr (sid', admin, q), out1)"
    and out: "out = out1 @ [Print (CHR 0x0A # ''Submitting '' @ str_int (arg_count a) @ '' fake student responses...'')]
               @ blocks b (base_url_of a) sid' (arg_count a) (delay_of a) (py_range (arg_count a)) items
               @ summary (frontend_url_of a) sid' admin"
    by blast
  from resolution_result [OF r] create resp(1,3) fields
  have "sid' = sid" "admin = Some link"
    using tok link by auto
  then have "summary (frontend_url_of a) sid' admin =
      [Print (CHR 0x0A # ''Done! Open the admin dashboard to see the summarized themes.''),
       Print (''  '' @ link)]"
    using link by (simp add: summary_def truthy_def)
  then show "last out = Print (''  '' @ link)"
    unfolding out by simp
qed

lemma slash_run: "\<exists>out. main slash_args accepting_backend example_rng = Some (Completed, out)"
  by (simp add: run_simps slash_args_def)

theorem admin_link_from_frontend_url_in_effect_witness:
  "\<not> truthy (arg_session_id slash_args) \<and>
   accepting_backend (session_request slash_args) = Inr created \<and> is_success created \<and>
   frontend_url_of slash_args = ''http://localhost:5173'' \<and>
   get_or_create_session slash_args accepting_backend (base_url_of slash_args) (frontend_url_of slash_args) =
     (Inr (''abc123'', Some ''http://localhost:5173/session/abc123/admin?token=tok'', arg_question slash_args),
      [Http (session_request slash_args), Print ''Created session: abc123'',
       Print ''  Student URL: http://localhost:8000/session/abc123'',
       Print ''  Admin URL:   http://localhost:5173/session/abc123/admin?token=tok'']) \<and>
   (\<exists>out. main slash_args accepting_backend example_rng = Some (Completed, out) \<and>
      take 4 out =
        [Http (session_request slash_args), Print ''Created session: abc123'',
         Print ''  Student URL: http://localhost:8000/session/abc123'',
         Print ''  Admin URL:   http://localhost:5173/session/abc123/admin?token=tok''] \<and>
      last out = Print ''  http://localhost:5173/session/abc123/admin?token=tok'')"
proof -
  have create: "\<not> truthy (arg_session_id slash_args)"
    by (simp add: slash_args_def default_args_def truthy_def)
  have resp: "accepting_backend (session_request slash_args) = Inr created"
    by (simp add: accepting_backend_def session_request_def slash_args_def default_args_def truthy_def)
  have ok: "is_success created"
    by (simp add: created_def is_success_def)
  have fe: "frontend_url_of slash_args = ''http://localhost:5173''"
    by (simp add: frontend_url_of_def slash_args_def default_args_def truthy_def rstrip_examples)
  have data: "json created = Inr [''session_id'' \<mapsto> ''abc123'',
                  ''student_url'' \<mapsto> ''http://localhost:8000/session/abc123'',
                  ''admin_url'' \<mapsto> ''http://localhost:8000/session/abc123/admin'',
                  ''admin_token'' \<mapsto> ''tok'']"
    by (simp add: created_def)
  obtain out where run: "main slash_args accepting_backend example_rng = Some (Completed, out)"
    using slash_run by blast
  from admin_link_from_frontend_url_in_effect
      [where a = slash_args and b = accepting_backend and resp = created
         and data = "[''session_id'' \<mapsto> ''abc123'',
                  ''student_url'' \<mapsto> ''http://localhost:8000/session/abc123'',
                  ''admin_url'' \<mapsto> ''http://localhost:8000/session/abc123/admin'',
                  ''admin_token'' \<mapsto> ''tok'']"
         and sid = "''abc123''" and tok = "''tok''"
         and link = "''http://localhost:5173/session/abc123/admin?token=tok''"
         and g = example_rng]
    create resp ok data fe run
  have "get_or_create_session slash_args accepting_backend (base_url_of slash_args) (frontend_url_of slash_args) =
     (Inr (''abc123'', Some ''http://localhost:5173/session/abc123/admin?token=tok'', arg_question slash_args),
      [Http (session_request slash_args), Print ''Created session: abc123'',
       Print ''  Student URL: http://localhost:8000/session/abc123'',
       Print ''  Admin URL:   http://localhost:5173/session/abc123/admin?token=tok'']) \<and>
    take 4 out =
        [Http (session_request slash_args), Print ''Created session: abc123'',
         Print ''  Student URL: http://localhost:8000/session/abc123'',
         Print ''  Admin URL:   http://localhost:5173/session/abc123/admin?token=tok''] \<and>
      last out = Print ''  http://localhost:5173/session/abc123/admin?token=tok''"
    by simp
  with create resp ok fe run show ?thesis by blast
qed

subsection \<open>Trailing slashes\<close>

text \<open>
  Claim C10, as stated, fails for the frontend URLs \<^verbatim>\<open>""\<close> and \<^verbatim>\<open>"/"\<close>, which differ only by
  a trailing slash: the empty one counts as not configured and the base URL replaces it,
  the other one is stripped to the empty URL, and the admin links printed differ.
\<close>

theorem trailing_slash_counterexample:
  "arg_base_url slash_only_args = arg_base_url empty_frontend_args \<and>
   arg_frontend_url empty_frontend_args = Some [] \<and>
   arg_frontend_url slash_only_args = Some ''/'' \<and>
   rstrip CHR ''/'' ''/'' = rstrip CHR ''/'' [] \<and>
   run_lines (main empty_frontend_args accepting_backend example_rng) =
     [''Created session: abc123'',
      ''  Student URL: http://localhost:8000/session/abc123'',
      ''  Admin URL:   http://localhost:8000/session/abc123/admin?token=tok'',
      CHR 0x0A # ''Submitting 0 fake student responses...'',
      CHR 0x0A # ''Done! Open the admin dashboard to see the summarized themes.'',
      ''  http://localhost:8000/session/abc123/admin?token=tok''] \<and>
   run_lines (main slash_only_args accepting_backend example_rng) =
     [''Created session: abc123'',
      ''  Student URL: http://localhost:8000/session/abc123'',
      ''  Admin URL:   http://localhost:8000/session/abc123/admin'',
      CHR 0x0A # ''Submitting 0 fake student responses...'',
      CHR 0x0A # ''Done! Open the admin dashboard to see the summarized themes.'',
      ''  /session/abc123/admin?token=tok'']"
  by (simp add: run_simps empty_frontend_args_def slash_only_args_def)

lemma main_cong:
  assumes "base_url_of a' = base_url_of a" "frontend_url_of a' = frontend_url_of a"
    and "delay_of a' = delay_of a" "arg_session_id a' = arg_session_id a"
    and "arg_question a' = arg_question a" "arg_count a' = arg_count a"
  shows "main a' b g = main a b g"
proof -
  have "get_or_create_session a' b (base_url_of a) (frontend_url_of a) =
        get_or_create_session a b (base_url_of a) (frontend_url_of a)"
    unfolding get_or_create_session_def assms(4,5) by (rule refl)
  then show ?thesis
    unfolding main_def assms Let_def by (simp only:)
qed

text \<open>
  Claim C10, as amended. Trailing slashes of the base URL, and of a frontend URL that is
  not empty, are stripped before any URL is built: two runs whose arguments differ only by
  such slashes, against the same backend and the same random source, are the same run,
  event for event, so they issue the same request URLs and print the same lines. The same
  holds when no frontend URL is configured.
\<close>

theorem trailing_slashes_ignored:
  assumes base: "rstrip CHR ''/'' u' = rstrip CHR ''/'' u"
    and front: "rstrip CHR ''/'' f' = rstrip CHR ''/'' f" "f \<noteq> []" "f' \<noteq> []"
  shows "main (a\<lparr>arg_base_url := u', arg_frontend_url := Some f'\<rparr>) b g =
         main (a\<lparr>arg_base_url := u, arg_frontend_url := Some f\<rparr>) b g \<and>
         main (a\<lparr>arg_base_url := u', arg_frontend_url := None\<rparr>) b g =
         main (a\<lparr>arg_base_url := u, arg_frontend_url := None\<rparr>) b g"
proof -
  let ?a1 = "a\<lparr>arg_base_url := u', arg_frontend_url := Some f'\<rparr>"
  let ?a2 = "a\<lparr>arg_base_url := u, arg_frontend_url := Some f\<rparr>"
  let ?a3 = "a\<lparr>arg_base_url := u', arg_frontend_url := None\<rparr>"
  let ?a4 = "a\<lparr>arg_base_url := u, arg_frontend_url := None\<rparr>"
  have "base_url_of ?a1 = base_url_of ?a2" "frontend_url_of ?a1 = frontend_url_of ?a2"
    using assms by (simp_all add: base_url_of_def frontend_url_of_def truthy_def)
  then have "main ?a1 b g = main ?a2 b g"
    by (rule main_cong) (simp_all add: delay_of_def)
  moreover have "base_url_of ?a3 = base_url_of ?a4" "frontend_url_of ?a3 = frontend_url_of ?a4"
    using assms by (simp_all add: base_url_of_def frontend_url_of_def truthy_def)
  then have "main ?a3 b g = main ?a4 b g"
    by (rule main_cong) (simp_all add: delay_of_def)
  ultimately show ?thesis by blast
qed

theorem trailing_slashes_ignored_witness:
  "rstrip CHR ''/'' ''http://localhost:8000///'' = rstrip CHR ''/'' ''http://localhost:8000'' \<and>
   rstrip CHR ''/'' ''http://localhost:5173/'' = rstrip CHR ''/'' ''http://localhost:5173'' \<and>
   main (example_args\<lparr>arg_base_url := ''http://localhost:8000///'',
                       arg_frontend_url := Some ''http://localhost:5173/''\<rparr>) failing_backend example_rng =
   main (example_args\<lparr>arg_base_url := ''http://localhost:8000'',
                       arg_frontend_url := Some ''http://localhost:5173''\<rparr>) failing_backend example_rng"
proof -
  have base: "rstrip CHR ''/'' ''http://localhost:8000///'' = rstrip CHR ''/'' ''http://localhost:8000''"
    by (simp add: rstrip_def)
  have front: "rstrip CHR ''/'' ''http://localhost:5173/'' = rstrip CHR ''/'' ''http://localhost:5173''"
    by (simp add: rstrip_def)
  from trailing_slashes_ignored [OF base front, of example_args failing_backend example_rng] base front
  show ?thesis by simp
qed

end
